theory Spec2Isabelle
  imports Main "HOL-Library.Char_ord" "HOL-Library.List_Lexorder" "HOL-Library.Product_Lexorder"
    "HOL-Library.Multiset" "HOL-Library.AList"
begin

section \<open>JSON values, rows and the store\<close>

text \<open>
  The server (\<^verbatim>\<open>server.js\<close>) maps HTTP requests with JSON bodies onto two SQLite tables
  through knex. A JSON scalar is a \<open>jval\<close>; a parsed request body and a table row are
  finite maps from field names to values, where an absent key is JavaScript's
  \<^verbatim>\<open>undefined\<close> and \<open>JNull\<close> is both JSON \<^verbatim>\<open>null\<close> and SQL \<^verbatim>\<open>NULL\<close>. Numbers are
  integers; a number with a fraction, an object and an array have no \<open>jval\<close>. What SQLite
  makes of a value on its way into a column is described with the task routes.
\<close>

datatype jval = JNull | JBool bool | JNum int | JStr string

type_synonym obj = "string \<rightharpoonup> jval"

text \<open>
  Where the server hands a whole body to the store, the body is the list of its
  members, so that its field names can be gone through.
\<close>

type_synonym members = "(string \<times> jval) list"

text \<open>JavaScript truthiness, as tested by \<^verbatim>\<open>!title\<close> and \<^verbatim>\<open>else if (updates.status)\<close>.\<close>

fun truthy :: "jval option \<Rightarrow> bool" where
  "truthy None = False"
| "truthy (Some JNull) = False"
| "truthy (Some (JBool b)) = b"
| "truthy (Some (JNum n)) = (n \<noteq> 0)"
| "truthy (Some (JStr s)) = (s \<noteq> [])"

text \<open>A row of \<^verbatim>\<open>users\<close>: registration only ever stores strings in its text columns.\<close>

record user =
  user_id :: int
  username :: string
  email :: string
  password :: string
  browser_notifications :: jval

text \<open>
  The store: the rows of both tables, and the \<^verbatim>\<open>sqlite_sequence\<close> counter that
  \<^verbatim>\<open>t.increments("id")\<close> (an AUTOINCREMENT key) keeps for \<^verbatim>\<open>tasks\<close>.
\<close>

record db =
  users :: "user list"
  tasks :: "obj list"
  task_seq :: int

section \<open>Tokens\<close>

text \<open>
  \<^verbatim>\<open>jsonwebtoken\<close> is modelled symbolically: a token is its payload together with the key
  that signed it, and verification accepts exactly the tokens signed with the verifier's
  key whose expiry lies ahead. \<^verbatim>\<open>iat\<close> and \<^verbatim>\<open>exp\<close> are in seconds. A header value is a
  string that may carry a token in its compact form, which holds no space.
\<close>

record claims =
  claim_id :: int
  claim_username :: string
  iat :: int
  exp :: int

datatype jwt = Jwt claims string

datatype sym = Ch char | Tok jwt

datatype body =
    Message string
  | Row "obj option"
  | Rows "obj list"
  | LoginOk jwt string string

text \<open>
  An answer is a status code with a body. \<open>Unmodelled\<close> stands for the answer to a
  request that knex and SQLite treat in a way this development does not describe:
  which requests those are is said where the store is written to.
\<close>

datatype response = Response nat body | Unmodelled

section \<open>Dates\<close>

text \<open>
  A \<^verbatim>\<open>Date\<close> is its time value: milliseconds since the epoch, UTC. \<open>civil_from_days\<close>
  turns a day number into the proleptic Gregorian year, month and day, and
  \<open>days_from_civil\<close> goes back. \<open>toISOString\<close> is \<^verbatim>\<open>Date.prototype.toISOString\<close> for the
  years 0000 to 9999, which it prints with four digits; it always prints UTC.
\<close>

definition ms_per_day :: int where
  "ms_per_day = 1000 * 60 * 60 * 24"

text \<open>
  Days are counted in eras of 400 years that start on 1 March, so that a leap day is
  the last day of its year. \<open>year_start\<close> is the first day of a year of the era, and
  \<open>leapless_days\<close> takes the leap days that lie before a day of the era out of its count.
\<close>

definition year_start :: "int \<Rightarrow> int" where
  "year_start yoe = 365 * yoe + yoe div 4 - yoe div 100"

definition leapless_days :: "int \<Rightarrow> int" where
  "leapless_days doe = doe - doe div 1460 + doe div 36524 - doe div 146096"

definition civil_from_days :: "int \<Rightarrow> int \<times> int \<times> int" where
  "civil_from_days days =
     (let z = days + 719468;
          era = z div 146097;
          doe = z - era * 146097;
          yoe = leapless_days doe div 365;
          doy = doe - year_start yoe;
          mp = (5 * doy + 2) div 153;
          d = doy - (153 * mp + 2) div 5 + 1;
          m = (if mp < 10 then mp + 3 else mp - 9);
          y = yoe + era * 400 + (if m \<le> 2 then 1 else 0)
      in (y, m, d))"

definition days_from_civil :: "int \<Rightarrow> int \<Rightarrow> int \<Rightarrow> int" where
  "days_from_civil y m d =
     (let y' = (if m \<le> 2 then y - 1 else y);
          era = y' div 400;
          yoe = y' - era * 400;
          doy = (153 * (if m > 2 then m - 3 else m + 9) + 2) div 5 + d - 1;
          doe = year_start yoe + doy
      in era * 146097 + doe - 719468)"

definition digit :: "int \<Rightarrow> char" where
  "digit n = ''0123456789'' ! nat (n mod 10)"

definition pad2 :: "int \<Rightarrow> string" where
  "pad2 n = [digit (n div 10), digit n]"

definition pad3 :: "int \<Rightarrow> string" where
  "pad3 n = [digit (n div 100), digit (n div 10), digit n]"

definition pad4 :: "int \<Rightarrow> string" where
  "pad4 n = [digit (n div 1000), digit (n div 100), digit (n div 10), digit n]"

definition toISOString :: "int \<Rightarrow> string" where
  "toISOString t =
     (case civil_from_days (t div ms_per_day) of
        (y, m, d) \<Rightarrow>
          let r = t mod ms_per_day
          in pad4 y @ ''-'' @ pad2 m @ ''-'' @ pad2 d @ ''T''
             @ pad2 (r div 3600000) @ '':'' @ pad2 (r div 60000 mod 60) @ '':''
             @ pad2 (r div 1000 mod 60) @ ''.'' @ pad3 (r mod 1000) @ ''Z'')"

text \<open>\<^verbatim>\<open>s.split(sep)\<close> for a one-character separator; the result is never empty.\<close>

fun split_on :: "'a \<Rightarrow> 'a list \<Rightarrow> 'a list list" where
  "split_on sep [] = [[]]"
| "split_on sep (x # xs) =
     (if x = sep then [] # split_on sep xs
      else (case split_on sep xs of p # ps \<Rightarrow> (x # p) # ps | [] \<Rightarrow> [[x]]))"

text \<open>\<^verbatim>\<open>date.toISOString().split('T')[0]\<close>\<close>

definition iso_date :: "int \<Rightarrow> string" where
  "iso_date t = (case split_on (CHR ''T'') (toISOString t) of p # _ \<Rightarrow> p | [] \<Rightarrow> [])"

text \<open>
  \<^verbatim>\<open>new Date(s)\<close> for a date-only string \<^verbatim>\<open>YYYY-MM-DD\<close>, which JavaScript reads as
  midnight UTC of that day. Every other string is \<open>None\<close> here, the invalid date; the
  only strings the server parses are the ones it printed with \<open>iso_date\<close>.
\<close>

definition digit_val :: "char \<Rightarrow> int option" where
  "digit_val c = map_of (zip ''0123456789'' [0, 1, 2, 3, 4, 5, 6, 7, 8, 9]) c"

definition Date_parse :: "string \<Rightarrow> int option" where
  "Date_parse s =
     (case s of
        [y1, y2, y3, y4, s1, m1, m2, s2, d1, d2] \<Rightarrow>
          (case map digit_val [y1, y2, y3, y4, m1, m2, d1, d2] of
             [Some a, Some b, Some c, Some d, Some e, Some f, Some g, Some h] \<Rightarrow>
               if s1 = CHR ''-'' \<and> s2 = CHR ''-''
                  \<and> 1 \<le> 10 * e + f \<and> 10 * e + f \<le> 12 \<and> 1 \<le> 10 * g + h \<and> 10 * g + h \<le> 31
               then Some (days_from_civil (1000 * a + 100 * b + 10 * c + d) (10 * e + f)
                            (10 * g + h) * ms_per_day)
               else None
           | _ \<Rightarrow> None)
      | _ \<Rightarrow> None)"

text \<open>\<^verbatim>\<open>Math.ceil(a / b)\<close> for integers \<open>a\<close> and a positive \<open>b\<close>.\<close>

definition ceil_div :: "int \<Rightarrow> int \<Rightarrow> int" where
  "ceil_div a b = - ((- a) div b)"

section \<open>Task routes\<close>

definition task_columns :: "string list" where
  "task_columns = [''id'', ''title'', ''description'', ''priority'', ''status'',
     ''dueDate'', ''completed'', ''user_id'', ''created_at'']"

text \<open>The columns \<^verbatim>\<open>migrate\<close> declares \<^verbatim>\<open>notNullable()\<close>, and the primary key.\<close>

definition task_not_null :: "string list" where
  "task_not_null = [''id'', ''title'', ''priority'', ''status'']"

text \<open>
  knex quotes a member name of the body and hands it to SQLite as a column name.
  SQLite finds a column without regard to the case of the ASCII letters of its name,
  and \<^verbatim>\<open>rowid\<close>, \<^verbatim>\<open>oid\<close> and \<^verbatim>\<open>_rowid_\<close> name the integer primary key. A name made of
  letters, digits and underscores reaches SQLite as it is; knex trims, splits or
  rewrites other names, and those are left outside.
\<close>

definition lower :: "char \<Rightarrow> char" where
  "lower c =
     (case map_of (zip ''ABCDEFGHIJKLMNOPQRSTUVWXYZ'' ''abcdefghijklmnopqrstuvwxyz'') c of
        Some l \<Rightarrow> l
      | None \<Rightarrow> c)"

definition plain_name :: "string \<Rightarrow> bool" where
  "plain_name k =
     list_all (\<lambda>c. c \<in> set ''abcdefghijklmnopqrstuvwxyzABCDEFGHIJKLMNOPQRSTUVWXYZ0123456789_'') k"

definition column_of :: "string \<Rightarrow> string option" where
  "column_of k =
     (if map lower k \<in> set [''rowid'', ''oid'', ''_rowid_''] then Some ''id''
      else find (\<lambda>c. map lower c = map lower k) task_columns)"

text \<open>
  The columns of \<^verbatim>\<open>tasks\<close> by what SQLite does to a value written into them.
  \<^verbatim>\<open>increments\<close> declares the integer primary key, which takes integers only.
  \<^verbatim>\<open>string\<close> and \<^verbatim>\<open>text\<close> columns have TEXT affinity: a number is stored as its decimal
  text. \<^verbatim>\<open>integer\<close>, \<^verbatim>\<open>datetime\<close> and \<^verbatim>\<open>boolean\<close> columns have INTEGER or NUMERIC
  affinity: text that reads as a number is stored as that number, other text stays
  text. The driver binds \<^verbatim>\<open>true\<close> and \<^verbatim>\<open>false\<close> as 1 and 0; in the \<^verbatim>\<open>boolean\<close> column
  these two integers are written \<open>JBool True\<close> and \<open>JBool False\<close> here, everywhere else
  \<open>JNum 1\<close> and \<open>JNum 0\<close>.
\<close>

datatype kind = Key | Text | Number | Flag

definition column_kind :: "string \<Rightarrow> kind" where
  "column_kind c =
     (if c = ''id'' then Key
      else if c = ''completed'' then Flag
      else if c \<in> set [''user_id'', ''created_at''] then Number
      else Text)"

text \<open>
  Text reads as a number when, between optional white space, it is a numeric literal:
  digits with an optional sign, fraction and exponent. \<open>int_literal\<close> is the value of
  the literals without fraction and exponent. \<open>surely_text\<close> holds of text that cannot
  be a literal, because it has no digit or has a character no literal has.
\<close>

definition is_space :: "char \<Rightarrow> bool" where
  "is_space c = (c \<in> set [CHR '' '', CHR 0x09, CHR 0x0A, CHR 0x0B, CHR 0x0C, CHR 0x0D])"

definition trim :: "string \<Rightarrow> string" where
  "trim s = rev (dropWhile is_space (rev (dropWhile is_space s)))"

definition digits_val :: "string \<Rightarrow> int option" where
  "digits_val s =
     (if s \<noteq> [] \<and> list_all (\<lambda>c. digit_val c \<noteq> None) s
      then Some (foldl (\<lambda>a c. 10 * a + (case digit_val c of Some v \<Rightarrow> v | None \<Rightarrow> 0)) 0 s)
      else None)"

definition int_literal :: "string \<Rightarrow> int option" where
  "int_literal s =
     (case trim s of
        [] \<Rightarrow> None
      | c # ds \<Rightarrow>
          if c = CHR ''-'' then map_option uminus (digits_val ds)
          else if c = CHR ''+'' then digits_val ds
          else digits_val (c # ds))"

definition surely_text :: "string \<Rightarrow> bool" where
  "surely_text s =
     (list_all (\<lambda>c. digit_val c = None) s
      \<or> list_ex (\<lambda>c. c \<notin> set ''0123456789+-.eE'' \<and> \<not> is_space c) s)"

text \<open>The decimal text of an integer.\<close>

fun nat_digits :: "nat \<Rightarrow> string" where
  "nat_digits n =
     (if n < 10 then [digit (int n)] else nat_digits (n div 10) @ [digit (int n)])"

declare nat_digits.simps [simp del]

definition decimal :: "int \<Rightarrow> string" where
  "decimal n = (if n < 0 then CHR ''-'' # nat_digits (nat (- n)) else nat_digits (nat n))"

fun as_text :: "jval \<Rightarrow> jval" where
  "as_text (JBool b) = JStr (if b then ''1'' else ''0'')"
| "as_text (JNum n) = JStr (decimal n)"
| "as_text v = v"

fun as_number :: "jval \<Rightarrow> jval" where
  "as_number (JBool b) = JNum (if b then 1 else 0)"
| "as_number (JStr s) =
     (if surely_text s then JStr s
      else (case int_literal s of Some n \<Rightarrow> JNum n | None \<Rightarrow> JStr s))"
| "as_number v = v"

fun as_flag :: "jval \<Rightarrow> jval" where
  "as_flag (JNum n) = (if n = 1 then JBool True else if n = 0 then JBool False else JNum n)"
| "as_flag v = v"

definition stored :: "string \<Rightarrow> jval \<Rightarrow> jval" where
  "stored c v =
     (case column_kind c of
        Text \<Rightarrow> as_text v
      | Flag \<Rightarrow> as_flag (as_number v)
      | _ \<Rightarrow> as_number v)"

text \<open>
  The values whose stored form is the one \<open>stored\<close> gives. Left outside are a number
  beyond 32 bits in a text column, which the driver binds as a double, and, in the
  other columns, text that may be a literal with a fraction or an exponent, or an
  integer literal beyond 64 bits.
\<close>

definition known :: "kind \<Rightarrow> jval \<Rightarrow> bool" where
  "known k v =
     (case v of
        JNum n \<Rightarrow> k \<noteq> Text \<or> (- (2 ^ 31) \<le> n \<and> n < 2 ^ 31)
      | JStr s \<Rightarrow>
          k = Text \<or> surely_text s
          \<or> (case int_literal s of Some n \<Rightarrow> - (2 ^ 63) \<le> n \<and> n < 2 ^ 63 | None \<Rightarrow> False)
      | _ \<Rightarrow> True)"

text \<open>
  What a write to the store comes to: it is carried out, SQLite or knex refuses it
  with an error, or it is one of the writes left outside.
\<close>

datatype 'a outcome = Done 'a | Refused | Uncovered

text \<open>\<^verbatim>\<open>where({ id })\<close> and \<^verbatim>\<open>where({ id, user_id: req.user.id })\<close>.\<close>

definition has_id :: "int \<Rightarrow> obj \<Rightarrow> bool" where
  "has_id tid t = (t ''id'' = Some (JNum tid))"

definition owned :: "int \<Rightarrow> int \<Rightarrow> obj \<Rightarrow> bool" where
  "owned tid uid t = (t ''id'' = Some (JNum tid) \<and> t ''user_id'' = Some (JNum uid))"

definition row_id :: "obj \<Rightarrow> int" where
  "row_id t = (case t ''id'' of Some (JNum n) \<Rightarrow> n | _ \<Rightarrow> 0)"

text \<open>
  \<^verbatim>\<open>db("tasks").insert(row)\<close>, for a row whose fields are columns of the table: each
  value is stored as its column has it; the insert is refused when a \<^verbatim>\<open>NOT NULL\<close>
  column would hold \<^verbatim>\<open>NULL\<close>; otherwise the new key is one more than the largest key
  the table has ever held, and that key is returned.
\<close>

definition row_known :: "obj \<Rightarrow> bool" where
  "row_known row =
     list_all (\<lambda>c. case row c of None \<Rightarrow> True | Some v \<Rightarrow> known (column_kind c) v) task_columns"

definition stored_row :: "obj \<Rightarrow> obj" where
  "stored_row row = (\<lambda>c. map_option (stored c) (row c))"

definition insert_task :: "db \<Rightarrow> obj \<Rightarrow> (int \<times> db) outcome" where
  "insert_task d row =
     (let new_id = 1 + fold max (map row_id (tasks d)) (task_seq d);
          row' = (stored_row row)(''id'' \<mapsto> JNum new_id)
      in if \<not> row_known row then Uncovered
         else if \<exists>c \<in> set task_not_null. row' c = Some JNull then Refused
         else Done (new_id, d\<lparr>tasks := tasks d @ [row'], task_seq := new_id\<rparr>))"

text \<open>
  \<^verbatim>\<open>db("tasks").where({ id }).update(updates)\<close>. Each member of \<open>updates\<close> that names a
  column assigns its value, stored as the column has it, to that column:
  \<open>assignments\<close> lists the columns with the values they get. When two members name
  one column SQLite keeps the assignment it is handed last, and the order in which
  knex hands them over is not fixed here; such an update is left outside.
\<close>

definition assignments :: "members \<Rightarrow> members" where
  "assignments updates =
     List.map_filter (\<lambda>(k, v). map_option (\<lambda>c. (c, stored c v)) (column_of k)) updates"

definition modelled :: "members \<Rightarrow> bool" where
  "modelled updates =
     (list_all (\<lambda>(k, v). plain_name k
                  \<and> (case column_of k of None \<Rightarrow> True | Some c \<Rightarrow> known (column_kind c) v)) updates
      \<and> distinct (map fst (assignments updates)))"

text \<open>
  knex refuses an empty update. SQLite refuses a name that is no column of the table,
  \<^verbatim>\<open>NULL\<close> in a \<^verbatim>\<open>NOT NULL\<close> column, a key that is no 64-bit integer ("datatype
  mismatch": \<^verbatim>\<open>NULL\<close>, or text that does not read as an integer) and a key another row
  already has. The foreign key on \<^verbatim>\<open>user_id\<close> is not enforced, as SQLite has it unless
  switched on. An accepted update overwrites exactly the assigned columns, in every
  row with that id.
\<close>

definition key_clash :: "db \<Rightarrow> int \<Rightarrow> jval option \<Rightarrow> bool" where
  "key_clash d tid v =
     (case v of
        None \<Rightarrow> False
      | Some (JNum n) \<Rightarrow>
          \<not> (- (2 ^ 63) \<le> n \<and> n < 2 ^ 63) \<or> (n \<noteq> tid \<and> (\<exists>t \<in> set (tasks d). has_id n t))
      | Some _ \<Rightarrow> True)"

definition update_refused :: "db \<Rightarrow> int \<Rightarrow> members \<Rightarrow> bool" where
  "update_refused d tid updates =
     (updates = []
      \<or> (\<exists>k \<in> set (map fst updates). column_of k = None)
      \<or> (\<exists>c \<in> set task_not_null. map_of (assignments updates) c = Some JNull)
      \<or> key_clash d tid (map_of (assignments updates) ''id''))"

definition update_task_rows :: "db \<Rightarrow> int \<Rightarrow> members \<Rightarrow> db outcome" where
  "update_task_rows d tid updates =
     (if \<not> modelled updates then Uncovered
      else if update_refused d tid updates then Refused
      else Done (d\<lparr>tasks := map (\<lambda>t. if has_id tid t then t ++ map_of (assignments updates) else t)
                               (tasks d)\<rparr>))"

text \<open>
  \<^verbatim>\<open>POST /api/tasks\<close>, after \<^verbatim>\<open>requireAuth\<close>: \<open>uid\<close> is \<^verbatim>\<open>req.user.id\<close>, \<open>now\<close> is
  the clock read by \<^verbatim>\<open>new Date()\<close>. A destructuring default replaces an absent field only;
  an absent \<^verbatim>\<open>dueDate\<close> is stored as \<^verbatim>\<open>NULL\<close> (\<^verbatim>\<open>useNullAsDefault\<close>).
\<close>

definition field_or :: "obj \<Rightarrow> string \<Rightarrow> jval \<Rightarrow> jval" where
  "field_or b k dflt = (case b k of None \<Rightarrow> dflt | Some v \<Rightarrow> v)"

text \<open>The object literal handed to \<^verbatim>\<open>insert\<close>, built from the destructured body.\<close>

definition task_row :: "int \<Rightarrow> int \<Rightarrow> obj \<Rightarrow> obj" where
  "task_row now uid b =
     (let description = field_or b ''description'' (JStr '''');
          priority = field_or b ''priority'' (JStr ''medium'');
          status = field_or b ''status'' (JStr ''pending'');
          completed = (status = JStr ''completed'')
      in [''title'' \<mapsto> field_or b ''title'' JNull,
          ''description'' \<mapsto> description,
          ''priority'' \<mapsto> priority,
          ''status'' \<mapsto> status,
          ''dueDate'' \<mapsto> field_or b ''dueDate'' JNull,
          ''completed'' \<mapsto> JBool completed,
          ''user_id'' \<mapsto> JNum uid,
          ''created_at'' \<mapsto> JStr (toISOString now)])"

definition createTask :: "db \<Rightarrow> int \<Rightarrow> int \<Rightarrow> obj \<Rightarrow> response \<times> db" where
  "createTask d now uid b =
     (if \<not> truthy (b ''title'') then (Response 400 (Message ''Task title is required''), d)
      else
        (case insert_task d (task_row now uid b) of
           Uncovered \<Rightarrow> (Unmodelled, d)
         | Refused \<Rightarrow> (Response 500 (Message ''Failed to create task''), d)
         | Done (new_id, d') \<Rightarrow> (Response 201 (Row (find (has_id new_id) (tasks d'))), d')))"


text \<open>
  \<^verbatim>\<open>PUT /api/tasks/:id\<close>: \<open>tid\<close> is \<^verbatim>\<open>parseInt(req.params.id)\<close>, \<open>updates\<close> the body.
  (A path segment that is no number parses to \<^verbatim>\<open>NaN\<close>, which equals no key; the routes
  are modelled for the segments that are numbers.) The two assignments to
  \<^verbatim>\<open>updates.completed\<close> are \<open>derive_completed\<close>: each sets the member, or overwrites it
  when the body already has one. \<^verbatim>\<open>updates.status\<close> reads the member of exactly that
  name.
\<close>

definition derive_completed :: "members \<Rightarrow> members" where
  "derive_completed updates =
     (if map_of updates ''status'' = Some (JStr ''completed'')
      then AList.update ''completed'' (JBool True) updates
      else if truthy (map_of updates ''status'')
      then AList.update ''completed'' (JBool False) updates
      else updates)"

definition updateTask :: "db \<Rightarrow> int \<Rightarrow> int \<Rightarrow> members \<Rightarrow> response \<times> db" where
  "updateTask d uid tid updates =
     (case find (owned tid uid) (tasks d) of
        None \<Rightarrow> (Response 404 (Message ''Task not found''), d)
      | Some task \<Rightarrow>
          (case update_task_rows d tid (derive_completed updates) of
             Uncovered \<Rightarrow> (Unmodelled, d)
           | Refused \<Rightarrow> (Response 500 (Message ''Failed to update task''), d)
           | Done d' \<Rightarrow> (Response 200 (Row (find (has_id tid) (tasks d'))), d')))"

text \<open>\<^verbatim>\<open>DELETE /api/tasks/:id\<close>: \<^verbatim>\<open>del()\<close> returns the number of rows it removed.\<close>

definition deleteTask :: "db \<Rightarrow> int \<Rightarrow> int \<Rightarrow> response \<times> db" where
  "deleteTask d uid tid =
     (let count = length (filter (owned tid uid) (tasks d));
          d' = d\<lparr>tasks := filter (\<lambda>t. \<not> owned tid uid t) (tasks d)\<rparr>
      in if count = 0 then (Response 404 (Message ''Task not found''), d')
         else (Response 200 (Message ''Task deleted''), d'))"

text \<open>
  \<^verbatim>\<open>GET /api/tasks/due-soon\<close>. \<^verbatim>\<open>tomorrow.setDate(tomorrow.getDate() + 1)\<close> moves the
  local calendar day on by one, which is 24 hours in a time zone with a fixed offset.
  \<^verbatim>\<open>orderBy("dueDate", "asc")\<close> sorts by SQLite's order of values: \<^verbatim>\<open>NULL\<close>, then numbers,
  then text compared byte by byte.
\<close>

definition sql_key :: "jval option \<Rightarrow> nat \<times> int \<times> string" where
  "sql_key v =
     (case v of
        None \<Rightarrow> (0, 0, [])
      | Some JNull \<Rightarrow> (0, 0, [])
      | Some (JBool b) \<Rightarrow> (1, if b then 1 else 0, [])
      | Some (JNum n) \<Rightarrow> (1, n, [])
      | Some (JStr s) \<Rightarrow> (2, 0, s))"

definition days_until :: "jval option \<Rightarrow> int \<Rightarrow> jval" where
  "days_until due today =
     (case due of
        Some (JStr s) \<Rightarrow>
          (case Date_parse s of
             Some dueDate \<Rightarrow> JNum (ceil_div (dueDate - today) ms_per_day)
           | None \<Rightarrow> JNull)
      | _ \<Rightarrow> JNull)"

definition due_soon :: "int \<Rightarrow> string \<Rightarrow> string \<Rightarrow> obj \<Rightarrow> bool" where
  "due_soon uid todayString tomorrowString t =
     (t ''user_id'' = Some (JNum uid)
      \<and> t ''completed'' = Some (JBool False)
      \<and> (t ''dueDate'' = Some (JStr todayString) \<or> t ''dueDate'' = Some (JStr tomorrowString)))"

definition listDueSoon :: "db \<Rightarrow> int \<Rightarrow> int \<Rightarrow> response" where
  "listDueSoon d now uid =
     (let today = now;
          tomorrow = today + ms_per_day;
          todayString = iso_date today;
          tomorrowString = iso_date tomorrow;
          dueTasks = sort_key (\<lambda>t. sql_key (t ''dueDate''))
                       (filter (due_soon uid todayString tomorrowString) (tasks d));
          tasksWithDays =
            map (\<lambda>task. task(''daysUntilDue'' \<mapsto> days_until (task ''dueDate'') today)) dueTasks
      in Response 200 (Rows tasksWithDays))"

section \<open>Authentication\<close>

definition JWT_EXPIRE :: int where
  "JWT_EXPIRE = 24 * 60 * 60"

definition jwt_sign :: "int \<times> string \<Rightarrow> string \<Rightarrow> int \<Rightarrow> int \<Rightarrow> jwt" where
  "jwt_sign payload secret expiresIn now =
     Jwt \<lparr>claim_id = fst payload, claim_username = snd payload,
          iat = now div 1000, exp = now div 1000 + expiresIn\<rparr> secret"

definition jwt_verify :: "sym list \<Rightarrow> string \<Rightarrow> int \<Rightarrow> claims option" where
  "jwt_verify s secret now =
     (case s of
        [Tok (Jwt c key)] \<Rightarrow> if key = secret \<and> now div 1000 < exp c then Some c else None
      | _ \<Rightarrow> None)"

definition signToken :: "string \<Rightarrow> int \<Rightarrow> user \<Rightarrow> jwt" where
  "signToken secret now u = jwt_sign (user_id u, username u) secret JWT_EXPIRE now"

text \<open>
  \<open>requireAuth\<close> either answers itself (\<open>Inl\<close>) or hands the decoded payload to the route
  as \<^verbatim>\<open>req.user\<close> (\<open>Inr\<close>). \<open>auth\<close> is the \<^verbatim>\<open>Authorization\<close> header, \<open>None\<close> when absent.
\<close>

definition startsWith :: "'a list \<Rightarrow> 'a list \<Rightarrow> bool" where
  "startsWith s p = (take (length p) s = p)"

definition requireAuth :: "string \<Rightarrow> int \<Rightarrow> sym list option \<Rightarrow> response + claims" where
  "requireAuth secret now auth =
     (case auth of
        None \<Rightarrow> Inl (Response 401 (Message ''No token provided''))
      | Some a \<Rightarrow>
          if a = [] \<or> \<not> startsWith a (map Ch ''Bearer '')
          then Inl (Response 401 (Message ''No token provided''))
          else
            (case (case split_on (Ch (CHR '' '')) a of _ # p # _ \<Rightarrow> jwt_verify p secret now
                                                     | _ \<Rightarrow> None) of
               None \<Rightarrow> Inl (Response 401 (Message ''Invalid or expired token''))
             | Some decoded \<Rightarrow> Inr decoded))"

text \<open>
  \<^verbatim>\<open>POST /api/auth/login\<close>. \<open>bcrypt_compare\<close> is \<^verbatim>\<open>bcrypt.compare\<close> on two strings; called
  with anything but a string it rejects ("Illegal arguments"), and knex rejects an
  \<^verbatim>\<open>undefined\<close> binding: both land in the \<^verbatim>\<open>catch\<close>.
\<close>

definition login ::
  "(string \<Rightarrow> string \<Rightarrow> bool) \<Rightarrow> string \<Rightarrow> int \<Rightarrow> db \<Rightarrow> obj \<Rightarrow> response" where
  "login bcrypt_compare secret now d b =
     (case b ''email'' of
        None \<Rightarrow> Response 500 (Message ''Login failed'')
      | Some e \<Rightarrow>
          (case find (\<lambda>u. JStr (email u) = e) (users d) of
             None \<Rightarrow> Response 401 (Message ''Incorrect email or password'')
           | Some u \<Rightarrow>
               (case b ''password'' of
                  Some (JStr pw) \<Rightarrow>
                    if \<not> bcrypt_compare pw (password u)
                    then Response 401 (Message ''Incorrect email or password'')
                    else Response 200 (LoginOk (signToken secret now u) (username u) (email u))
                | _ \<Rightarrow> Response 500 (Message ''Login failed''))))"

section \<open>Account deletion\<close>

text \<open>
  \<^verbatim>\<open>db.transaction(handler)\<close>: the handler works on the store; when it throws, the
  transaction is rolled back, so the store is the one the transaction started from.
\<close>

definition transaction :: "(db \<Rightarrow> string + db) \<Rightarrow> db \<Rightarrow> string option \<times> db" where
  "transaction handler d =
     (case handler d of Inl err \<Rightarrow> (Some err, d) | Inr d' \<Rightarrow> (None, d'))"

definition deleteAccount :: "db \<Rightarrow> int \<Rightarrow> response \<times> db" where
  "deleteAccount d userId =
     (case transaction
        (\<lambda>trx.
           let trx1 = trx\<lparr>tasks := filter (\<lambda>t. t ''user_id'' \<noteq> Some (JNum userId)) (tasks trx)\<rparr>;
               deletedCount = length (filter (\<lambda>u. user_id u = userId) (users trx1));
               trx2 = trx1\<lparr>users := filter (\<lambda>u. user_id u \<noteq> userId) (users trx1)\<rparr>
           in if deletedCount = 0 then Inl ''User not found'' else Inr trx2) d of
        (Some err, d') \<Rightarrow> (Response 500 (Message ''Failed to delete account''), d')
      | (None, d') \<Rightarrow> (Response 200 (Message ''Account and all data deleted successfully''), d'))"

section \<open>Sequences of writes\<close>








section \<open>Schema migration\<close>

text \<open>
  For \<^verbatim>\<open>migrate\<close> the store is seen one level lower: a table is its column
  declarations, in order, and its rows. A schema statement either fails, changing
  nothing, or yields the new store.
\<close>

datatype cdefault = NoDefault | DefaultTo jval | DefaultNow

record column =
  cname :: string
  ctype :: string
  primary :: bool
  not_null :: bool
  uniq :: bool
  dflt :: cdefault
  refs :: "(string \<times> string) option"

record table =
  columns :: "column list"
  rows :: "obj list"

type_synonym schema = "string \<rightharpoonup> table"

definition col :: "string \<Rightarrow> string \<Rightarrow> column" where
  "col ty n = \<lparr>cname = n, ctype = ty, primary = False, not_null = False, uniq = False,
               dflt = NoDefault, refs = None\<rparr>"

definition users_columns :: "column list" where
  "users_columns =
     [(col ''increments'' ''id'')\<lparr>primary := True, not_null := True\<rparr>,
      (col ''string'' ''username'')\<lparr>uniq := True, not_null := True\<rparr>,
      (col ''string'' ''email'')\<lparr>uniq := True, not_null := True\<rparr>,
      (col ''string'' ''password'')\<lparr>not_null := True\<rparr>,
      (col ''boolean'' ''browser_notifications'')\<lparr>dflt := DefaultTo (JBool True)\<rparr>]"

definition tasks_columns :: "column list" where
  "tasks_columns =
     [(col ''increments'' ''id'')\<lparr>primary := True, not_null := True\<rparr>,
      (col ''string'' ''title'')\<lparr>not_null := True\<rparr>,
      col ''text'' ''description'',
      (col ''string'' ''priority'')\<lparr>not_null := True\<rparr>,
      (col ''string'' ''status'')\<lparr>not_null := True\<rparr>,
      col ''string'' ''dueDate'',
      (col ''boolean'' ''completed'')\<lparr>dflt := DefaultTo (JBool False)\<rparr>,
      (col ''integer'' ''user_id'')\<lparr>refs := Some (''users'', ''id'')\<rparr>,
      (col ''datetime'' ''created_at'')\<lparr>dflt := DefaultNow\<rparr>]"

definition column_names :: "table \<Rightarrow> string list" where
  "column_names t = map cname (columns t)"

definition hasTable :: "schema \<Rightarrow> string \<Rightarrow> bool" where
  "hasTable s tn = (s tn \<noteq> None)"

definition hasColumn :: "schema \<Rightarrow> string \<Rightarrow> string \<Rightarrow> bool" where
  "hasColumn s tn c = (case s tn of None \<Rightarrow> False | Some t \<Rightarrow> c \<in> set (column_names t))"

definition createTable :: "string \<Rightarrow> column list \<Rightarrow> schema \<Rightarrow> string option \<times> schema" where
  "createTable tn cs s =
     (if hasTable s tn then (Some ''table already exists'', s)
      else (None, s(tn \<mapsto> \<lparr>columns = cs, rows = []\<rparr>)))"

definition rename_in_row :: "string \<Rightarrow> string \<Rightarrow> obj \<Rightarrow> obj" where
  "rename_in_row a b r = (r(a := None))(b := r a)"

definition rename_in_table :: "string \<Rightarrow> string \<Rightarrow> table \<Rightarrow> table" where
  "rename_in_table a b t =
     \<lparr>columns = map (\<lambda>c. if cname c = a then c\<lparr>cname := b\<rparr> else c) (columns t),
      rows = map (rename_in_row a b) (rows t)\<rparr>"

definition renameColumn ::
  "string \<Rightarrow> string \<Rightarrow> string \<Rightarrow> schema \<Rightarrow> string option \<times> schema" where
  "renameColumn tn a b s =
     (case s tn of
        None \<Rightarrow> (Some ''no such table'', s)
      | Some t \<Rightarrow>
          if a \<notin> set (column_names t) then (Some ''no such column'', s)
          else if b \<in> set (column_names t) then (Some ''duplicate column name'', s)
          else (None, s(tn \<mapsto> rename_in_table a b t)))"

text \<open>
  \<^verbatim>\<open>ALTER TABLE ... ADD COLUMN\<close>: existing rows read the new column's default, \<^verbatim>\<open>NULL\<close>
  when it has none; SQLite refuses a default that is not a constant.
\<close>

definition add_to_table :: "column \<Rightarrow> jval \<Rightarrow> table \<Rightarrow> table" where
  "add_to_table c v t =
     \<lparr>columns = columns t @ [c], rows = map (\<lambda>r. r(cname c \<mapsto> v)) (rows t)\<rparr>"

definition addColumn :: "string \<Rightarrow> column \<Rightarrow> schema \<Rightarrow> string option \<times> schema" where
  "addColumn tn c s =
     (case s tn of
        None \<Rightarrow> (Some ''no such table'', s)
      | Some t \<Rightarrow>
          if cname c \<in> set (column_names t) then (Some ''duplicate column name'', s)
          else
            (case dflt c of
               DefaultNow \<Rightarrow> (Some ''cannot add a column with non-constant default'', s)
             | DefaultTo v \<Rightarrow> (None, s(tn \<mapsto> add_to_table c v t))
             | NoDefault \<Rightarrow> (None, s(tn \<mapsto> add_to_table c JNull t))))"

definition drop_from_table :: "string \<Rightarrow> table \<Rightarrow> table" where
  "drop_from_table a t =
     \<lparr>columns = filter (\<lambda>c. cname c \<noteq> a) (columns t),
      rows = map (\<lambda>r. r(a := None)) (rows t)\<rparr>"

definition dropColumn :: "string \<Rightarrow> string \<Rightarrow> schema \<Rightarrow> string option \<times> schema" where
  "dropColumn tn a s =
     (case s tn of
        None \<Rightarrow> (Some ''no such table'', s)
      | Some t \<Rightarrow>
          if a \<notin> set (column_names t) then (Some ''no such column'', s)
          else (None, s(tn \<mapsto> drop_from_table a t)))"

text \<open>\<^verbatim>\<open>db(tn).update({ c: v })\<close> with no \<^verbatim>\<open>where\<close>: every row.\<close>

definition set_in_table :: "string \<Rightarrow> jval \<Rightarrow> table \<Rightarrow> table" where
  "set_in_table c v t = t\<lparr>rows := map (\<lambda>r. r(c \<mapsto> v)) (rows t)\<rparr>"

definition update_all :: "string \<Rightarrow> string \<Rightarrow> jval \<Rightarrow> schema \<Rightarrow> string option \<times> schema" where
  "update_all tn c v s =
     (case s tn of
        None \<Rightarrow> (Some ''no such table'', s)
      | Some t \<Rightarrow>
          if c \<notin> set (column_names t) then (Some ''no such column'', s)
          else (None, s(tn \<mapsto> set_in_table c v t)))"

text \<open>
  The body of \<^verbatim>\<open>migrate\<close> is one \<^verbatim>\<open>try\<close> block: the first statement that fails ends
  it, with the earlier statements already applied. \<open>and_then\<close> is that sequencing; the
  result is the error that was logged, if any, and the store the routine leaves.
\<close>

definition and_then ::
  "string option \<times> schema \<Rightarrow> (schema \<Rightarrow> string option \<times> schema) \<Rightarrow> string option \<times> schema" where
  "and_then r f = (case r of (Some err, s) \<Rightarrow> (Some err, s) | (None, s) \<Rightarrow> f s)"

definition create_users :: "schema \<Rightarrow> string option \<times> schema" where
  "create_users s =
     (if \<not> hasTable s ''users'' then createTable ''users'' users_columns s else (None, s))"

definition create_tasks :: "schema \<Rightarrow> string option \<times> schema" where
  "create_tasks s =
     (if \<not> hasTable s ''tasks'' then createTable ''tasks'' tasks_columns s else (None, s))"

definition rename_notifications :: "schema \<Rightarrow> string option \<times> schema" where
  "rename_notifications s =
     (if hasColumn s ''users'' ''email_notifications''
      then renameColumn ''users'' ''email_notifications'' ''browser_notifications'' s
      else (None, s))"

definition add_notifications :: "schema \<Rightarrow> string option \<times> schema" where
  "add_notifications s =
     (if \<not> hasColumn s ''users'' ''browser_notifications''
      then addColumn ''users''
             ((col ''boolean'' ''browser_notifications'')\<lparr>dflt := DefaultTo (JBool True)\<rparr>) s
      else (None, s))"

definition drop_reminder_sent :: "schema \<Rightarrow> string option \<times> schema" where
  "drop_reminder_sent s =
     (if hasColumn s ''tasks'' ''reminder_sent'' then dropColumn ''tasks'' ''reminder_sent'' s
      else (None, s))"

definition add_created_at :: "int \<Rightarrow> schema \<Rightarrow> string option \<times> schema" where
  "add_created_at now s =
     (if \<not> hasColumn s ''tasks'' ''created_at''
      then and_then (addColumn ''tasks'' (col ''datetime'' ''created_at'') s)
             (update_all ''tasks'' ''created_at'' (JStr (toISOString now)))
      else (None, s))"

definition migrate :: "int \<Rightarrow> schema \<Rightarrow> string option \<times> schema" where
  "migrate now s =
     and_then (and_then (and_then (and_then (and_then
       (create_users s) create_tasks) rename_notifications) add_notifications)
       drop_reminder_sent) (add_created_at now)"

text \<open>The shape \<^verbatim>\<open>migrate\<close> aims at, and what it means for it to keep the rows.\<close>

definition migrated :: "schema \<Rightarrow> bool" where
  "migrated s =
     (hasTable s ''users'' \<and> hasTable s ''tasks''
      \<and> \<not> hasColumn s ''users'' ''email_notifications''
      \<and> hasColumn s ''users'' ''browser_notifications''
      \<and> \<not> hasColumn s ''tasks'' ''reminder_sent''
      \<and> hasColumn s ''tasks'' ''created_at'')"

definition migration_columns :: "string list" where
  "migration_columns =
     [''email_notifications'', ''browser_notifications'', ''reminder_sent'', ''created_at'']"

definition same_rows_except :: "string list \<Rightarrow> table \<Rightarrow> table \<Rightarrow> bool" where
  "same_rows_except ks t t' =
     (map (\<lambda>r. r |` (- set ks)) (rows t') = map (\<lambda>r. r |` (- set ks)) (rows t))"

definition column_values :: "string \<Rightarrow> table \<Rightarrow> jval option list" where
  "column_values c t = map (\<lambda>r. r c) (rows t)"

definition kept :: "schema \<Rightarrow> schema \<Rightarrow> bool" where
  "kept s s' =
     (\<forall>tn t. s tn = Some t \<longrightarrow>
        (\<exists>t'. s' tn = Some t'
           \<and> same_rows_except migration_columns t t'
           \<and> filter (\<lambda>c. cname c \<notin> set migration_columns) (columns t')
               = filter (\<lambda>c. cname c \<notin> set migration_columns) (columns t)
           \<and> (tn = ''users'' \<and> ''email_notifications'' \<in> set (column_names t) \<longrightarrow>
                column_values ''browser_notifications'' t'
                  = column_values ''email_notifications'' t)
           \<and> (tn = ''users'' \<and> ''email_notifications'' \<notin> set (column_names t)
                \<and> ''browser_notifications'' \<in> set (column_names t) \<longrightarrow>
                column_values ''browser_notifications'' t'
                  = column_values ''browser_notifications'' t)
           \<and> (tn = ''tasks'' \<and> ''created_at'' \<in> set (column_names t) \<longrightarrow>
                column_values ''created_at'' t' = column_values ''created_at'' t)))"

text \<open>Table by table, what a run that meets no error leaves.\<close>

definition migrate_users :: "table option \<Rightarrow> table" where
  "migrate_users uo =
     (let u1 = (case uo of None \<Rightarrow> \<lparr>columns = users_columns, rows = []\<rparr> | Some u \<Rightarrow> u);
          u3 = (if ''email_notifications'' \<in> set (column_names u1)
                then rename_in_table ''email_notifications'' ''browser_notifications'' u1
                else u1)
      in if ''browser_notifications'' \<in> set (column_names u3) then u3
         else add_to_table
                ((col ''boolean'' ''browser_notifications'')\<lparr>dflt := DefaultTo (JBool True)\<rparr>)
                (JBool True) u3)"

definition migrate_tasks :: "int \<Rightarrow> table option \<Rightarrow> table" where
  "migrate_tasks now to =
     (let t2 = (case to of None \<Rightarrow> \<lparr>columns = tasks_columns, rows = []\<rparr> | Some t \<Rightarrow> t);
          t5 = (if ''reminder_sent'' \<in> set (column_names t2)
                then drop_from_table ''reminder_sent'' t2 else t2)
      in if ''created_at'' \<in> set (column_names t5) then t5
         else set_in_table ''created_at'' (JStr (toISOString now))
                (add_to_table (col ''datetime'' ''created_at'') JNull t5))"

section \<open>Example states\<close>

text \<open>Concrete stores and requests on which the theorems below are instantiated.\<close>

definition alice :: user where
  "alice = \<lparr>user_id = 1, username = ''alice'', email = ''alice@example.com'',
             password = ''hash-of-alice'', browser_notifications = JBool True\<rparr>"

definition bob :: user where
  "bob = \<lparr>user_id = 2, username = ''bob'', email = ''bob@example.com'',
           password = ''hash-of-bob'', browser_notifications = JBool True\<rparr>"

definition bobs_task :: obj where
  "bobs_task = [''id'' \<mapsto> JNum 7, ''title'' \<mapsto> JStr ''Buy milk'', ''description'' \<mapsto> JStr [],
     ''priority'' \<mapsto> JStr ''medium'', ''status'' \<mapsto> JStr ''pending'',
     ''dueDate'' \<mapsto> JStr ''2024-01-02'', ''completed'' \<mapsto> JBool False,
     ''user_id'' \<mapsto> JNum 2, ''created_at'' \<mapsto> JStr ''2024-01-01T20:00:00.000Z'']"

definition example_db :: db where
  "example_db = \<lparr>users = [alice, bob], tasks = [bobs_task], task_seq = 7\<rparr>"


definition orphan_db :: db where
  "orphan_db = \<lparr>users = [alice], tasks = [bobs_task], task_seq = 7\<rparr>"

definition secret_key :: string where
  "secret_key = ''your-strong-secret-key''"

text \<open>
  The calendar date shown by a clock that runs \<open>tz\<close> minutes ahead of UTC, in the
  format of \<open>iso_date\<close>, and a store with tasks due around 2 January 2024.
\<close>

definition local_date :: "int \<Rightarrow> int \<Rightarrow> string" where
  "local_date tz t = iso_date (t + tz * 60000)"

definition due_local_tomorrow :: obj where
  "due_local_tomorrow = [''id'' \<mapsto> JNum 8, ''title'' \<mapsto> JStr ''File taxes'', ''description'' \<mapsto> JStr [],
     ''priority'' \<mapsto> JStr ''high'', ''status'' \<mapsto> JStr ''pending'',
     ''dueDate'' \<mapsto> JStr ''2024-01-03'', ''completed'' \<mapsto> JBool False,
     ''user_id'' \<mapsto> JNum 2, ''created_at'' \<mapsto> JStr ''2024-01-01T20:00:00.000Z'']"

definition bobs_done_task :: obj where
  "bobs_done_task = [''id'' \<mapsto> JNum 9, ''title'' \<mapsto> JStr ''Water plants'', ''description'' \<mapsto> JStr [],
     ''priority'' \<mapsto> JStr ''low'', ''status'' \<mapsto> JStr ''completed'',
     ''dueDate'' \<mapsto> JStr ''2024-01-02'', ''completed'' \<mapsto> JBool True,
     ''user_id'' \<mapsto> JNum 2, ''created_at'' \<mapsto> JStr ''2024-01-01T20:00:00.000Z'']"

definition due_db :: db where
  "due_db = \<lparr>users = [alice, bob], tasks = [bobs_done_task, due_local_tomorrow, bobs_task],
              task_seq = 9\<rparr>"

text \<open>A store of an earlier version of the schema, with one row in each table.\<close>

definition legacy_users :: table where
  "legacy_users =
     \<lparr>columns =
        [(col ''increments'' ''id'')\<lparr>primary := True, not_null := True\<rparr>,
         (col ''string'' ''username'')\<lparr>uniq := True, not_null := True\<rparr>,
         (col ''string'' ''email'')\<lparr>uniq := True, not_null := True\<rparr>,
         (col ''string'' ''password'')\<lparr>not_null := True\<rparr>,
         (col ''boolean'' ''email_notifications'')\<lparr>dflt := DefaultTo (JBool True)\<rparr>],
      rows =
        [[''id'' \<mapsto> JNum 1, ''username'' \<mapsto> JStr ''alice'', ''email'' \<mapsto> JStr ''alice@example.com'',
          ''password'' \<mapsto> JStr ''hash-of-alice'', ''email_notifications'' \<mapsto> JBool False]]\<rparr>"

definition legacy_tasks :: table where
  "legacy_tasks =
     \<lparr>columns =
        [(col ''increments'' ''id'')\<lparr>primary := True, not_null := True\<rparr>,
         (col ''string'' ''title'')\<lparr>not_null := True\<rparr>,
         col ''text'' ''description'',
         (col ''string'' ''priority'')\<lparr>not_null := True\<rparr>,
         (col ''string'' ''status'')\<lparr>not_null := True\<rparr>,
         col ''string'' ''dueDate'',
         (col ''boolean'' ''completed'')\<lparr>dflt := DefaultTo (JBool False)\<rparr>,
         (col ''integer'' ''user_id'')\<lparr>refs := Some (''users'', ''id'')\<rparr>,
         (col ''boolean'' ''reminder_sent'')\<lparr>dflt := DefaultTo (JBool False)\<rparr>],
      rows =
        [[''id'' \<mapsto> JNum 7, ''title'' \<mapsto> JStr ''Buy milk'', ''description'' \<mapsto> JStr [],
          ''priority'' \<mapsto> JStr ''medium'', ''status'' \<mapsto> JStr ''pending'',
          ''dueDate'' \<mapsto> JStr ''2024-01-02'', ''completed'' \<mapsto> JBool False,
          ''user_id'' \<mapsto> JNum 1, ''reminder_sent'' \<mapsto> JBool True]]\<rparr>"

definition legacy_schema :: schema where
  "legacy_schema = [''users'' \<mapsto> legacy_users, ''tasks'' \<mapsto> legacy_tasks]"

section \<open>Properties of the task routes\<close>

lemma find_none_iff_not_owned:
  "find (owned tid uid) ts = None \<longleftrightarrow> (\<forall>t \<in> set ts. \<not> owned tid uid t)"
  by (auto simp: find_None_iff)

lemma filter_not_owned_id:
  assumes "\<forall>t \<in> set ts. \<not> owned tid uid t"
  shows "filter (\<lambda>t. \<not> owned tid uid t) ts = ts" and "filter (owned tid uid) ts = []"
  using assms by (induction ts) auto

text \<open>
  Claim C1. When no task with id \<open>tid\<close> is owned by \<open>uid\<close>, whether the id is unused or the
  task belongs to somebody else, both \<^verbatim>\<open>PUT\<close> and \<^verbatim>\<open>DELETE\<close> answer
  404 "Task not found" and leave the store as it was, so the two cases give the same
  observable result.
\<close>

theorem C1_not_owned_is_not_found:
  assumes "\<forall>t \<in> set (tasks d). \<not> owned tid uid t"
  shows "updateTask d uid tid updates = (Response 404 (Message ''Task not found''), d)
       \<and> deleteTask d uid tid = (Response 404 (Message ''Task not found''), d)"
proof -
  have "find (owned tid uid) (tasks d) = None"
    using assms by (simp add: find_none_iff_not_owned)
  then have upd: "updateTask d uid tid updates = (Response 404 (Message ''Task not found''), d)"
    by (simp add: updateTask_def)
  have "deleteTask d uid tid = (Response 404 (Message ''Task not found''), d)"
    using filter_not_owned_id [OF assms] by (simp add: deleteTask_def)
  with upd show ?thesis by simp
qed

theorem C1_not_owned_is_not_found_witness:
  "updateTask example_db 1 7 [(''title'', JStr ''mine now'')]
     = (Response 404 (Message ''Task not found''), example_db)
   \<and> deleteTask example_db 1 7 = (Response 404 (Message ''Task not found''), example_db)
   \<and> updateTask example_db 1 8 [(''title'', JStr ''mine now'')]
     = (Response 404 (Message ''Task not found''), example_db)
   \<and> deleteTask example_db 1 8 = (Response 404 (Message ''Task not found''), example_db)"
proof -
  have h7: "\<forall>t \<in> set (tasks example_db). \<not> owned 7 1 t"
    by (simp add: example_db_def bobs_task_def owned_def)
  have h8: "\<forall>t \<in> set (tasks example_db). \<not> owned 8 1 t"
    by (simp add: example_db_def bobs_task_def owned_def)
  from C1_not_owned_is_not_found [OF h7] C1_not_owned_is_not_found [OF h8]
  show ?thesis by simp
qed

subsection \<open>Names and stored values\<close>

text \<open>
  The columns, their kinds and the \<^verbatim>\<open>NOT NULL\<close> ones are those that \<^verbatim>\<open>migrate\<close> declares
  for \<^verbatim>\<open>tasks\<close>, and every column is found under its own name.
\<close>

lemma columns_as_declared:
  "map cname tasks_columns = task_columns"
  "map cname (filter not_null tasks_columns) = task_not_null"
  "list_all (\<lambda>c. column_kind (cname c) =
                (if ctype c = ''increments'' then Key
                 else if ctype c \<in> set [''string'', ''text''] then Text
                 else if ctype c = ''boolean'' then Flag
                 else Number)) tasks_columns"
  by code_simp+

lemma column_of_columns: "list_all (\<lambda>c. column_of c = Some c) task_columns"
  by code_simp





















subsection \<open>Creating a task\<close>












subsection \<open>Updating a task\<close>



lemma updateTask_succeeds:
  assumes "\<exists>t \<in> set (tasks d). owned tid uid t" "modelled (derive_completed u)"
    and "\<not> update_refused d tid (derive_completed u)"
  shows "\<exists>r. updateTask d uid tid u = (Response 200 r,
      d\<lparr>tasks := map (\<lambda>t. if has_id tid t
                            then t ++ map_of (assignments (derive_completed u)) else t)
                      (tasks d)\<rparr>)"
proof -
  from assms(1) obtain t where "find (owned tid uid) (tasks d) = Some t"
    by (cases "find (owned tid uid) (tasks d)") (auto simp: find_None_iff)
  then show ?thesis using assms(2,3)
    by (simp add: updateTask_def update_task_rows_def)
qed

text \<open>An update is not refused when it assigns columns only, no \<^verbatim>\<open>NULL\<close> where none may be, and not the key.\<close>

lemma update_not_refused:
  assumes "u \<noteq> []" "list_all (\<lambda>k. column_of k \<noteq> None) (map fst u)"
    and "list_all (\<lambda>c. map_of (assignments u) c \<noteq> Some JNull) task_not_null"
    and "map_of (assignments u) ''id'' = None"
  shows "\<not> update_refused d tid u"
  using assms by (auto simp: update_refused_def key_clash_def list_all_iff)









lemma bob_owns_task: "owned 7 2 bobs_task"
  by (simp add: owned_def bobs_task_def)

lemma bobs_task_id: "has_id 7 bobs_task"
  by (simp add: has_id_def bobs_task_def)





subsection \<open>Updates by example\<close>

text \<open>
  A member spelled \<^verbatim>\<open>Status\<close> writes the status column, but it is not the member
  \<^verbatim>\<open>updates.status\<close> that the route reads, so \<^verbatim>\<open>completed\<close> stays as it was.
\<close>

lemma spelled_status_is_not_derived:
  "\<exists>r d'. updateTask example_db 2 7 [(''Status'', JStr ''completed'')] = (Response 200 r, d')
     \<and> (tasks d' ! 0) ''status'' = Some (JStr ''completed'')
     \<and> (tasks d' ! 0) ''completed'' = Some (JBool False)"
proof -
  let ?u = "[(''Status'', JStr ''completed'')]"
  have own: "\<exists>t \<in> set (tasks example_db). owned 7 2 t"
    by (simp add: example_db_def bob_owns_task)
  have m: "modelled (derive_completed ?u)" by code_simp
  have a: "assignments (derive_completed ?u) = [(''status'', JStr ''completed'')]"
    by code_simp
  have "\<not> update_refused example_db 7 (derive_completed ?u)"
    by (rule update_not_refused; code_simp)
  from updateTask_succeeds [OF own m this] obtain r where
    "updateTask example_db 2 7 ?u = (Response 200 r,
       example_db\<lparr>tasks := [bobs_task ++ map_of (assignments (derive_completed ?u))]\<rparr>)"
    by (auto simp: example_db_def bobs_task_id)
  moreover have "(bobs_task ++ map_of (assignments (derive_completed ?u))) ''status''
      = Some (JStr ''completed'')"
    and "(bobs_task ++ map_of (assignments (derive_completed ?u))) ''completed''
      = Some (JBool False)"
    unfolding a by (simp_all add: bobs_task_def map_add_def)
  ultimately show ?thesis by simp
qed

text \<open>
  A key given as text that reads as an integer is taken; a number is stored in a text
  column as its decimal text, and 0 in the boolean column is \<^verbatim>\<open>false\<close>.
\<close>

lemma values_are_converted:
  "\<exists>r d'. updateTask example_db 2 7
              [(''id'', JStr '' 99''), (''title'', JNum 5), (''completed'', JNum 0)]
             = (Response 200 r, d')
     \<and> (tasks d' ! 0) ''id'' = Some (JNum 99)
     \<and> (tasks d' ! 0) ''title'' = Some (JStr ''5'')
     \<and> (tasks d' ! 0) ''completed'' = Some (JBool False)"
proof -
  let ?u = "[(''id'', JStr '' 99''), (''title'', JNum 5), (''completed'', JNum 0)]"
  have own: "\<exists>t \<in> set (tasks example_db). owned 7 2 t"
    by (simp add: example_db_def bob_owns_task)
  have m: "modelled (derive_completed ?u)" by code_simp
  have a: "assignments (derive_completed ?u)
      = [(''id'', JNum 99), (''title'', JStr ''5''), (''completed'', JBool False)]"
    by code_simp
  have "derive_completed ?u \<noteq> []"
    and "list_all (\<lambda>k. column_of k \<noteq> None) (map fst (derive_completed ?u))"
    and "list_all (\<lambda>c. map_of (assignments (derive_completed ?u)) c \<noteq> Some JNull) task_not_null"
    by code_simp+
  moreover have "map_of (assignments (derive_completed ?u)) ''id'' = Some (JNum 99)"
    unfolding a by simp
  moreover have "\<not> key_clash example_db 7 (Some (JNum 99))"
    by (simp add: key_clash_def example_db_def has_id_def bobs_task_def)
  ultimately have "\<not> update_refused example_db 7 (derive_completed ?u)"
    by (auto simp: update_refused_def list_all_iff)
  from updateTask_succeeds [OF own m this] obtain r where
    "updateTask example_db 2 7 ?u = (Response 200 r,
       example_db\<lparr>tasks := [bobs_task ++ map_of (assignments (derive_completed ?u))]\<rparr>)"
    by (auto simp: example_db_def bobs_task_id)
  moreover have "(bobs_task ++ map_of (assignments (derive_completed ?u))) ''id'' = Some (JNum 99)"
    and "(bobs_task ++ map_of (assignments (derive_completed ?u))) ''title'' = Some (JStr ''5'')"
    and "(bobs_task ++ map_of (assignments (derive_completed ?u))) ''completed''
      = Some (JBool False)"
    unfolding a by (simp_all add: map_add_def)
  ultimately show ?thesis by simp
qed

text \<open>
  Refused and left outside: a name that is no column, a key that is not an integer,
  and two members that name one column.
\<close>

lemma refused_and_outside:
  "fst (updateTask example_db 2 7 [(''colour'', JStr ''red'')])
     = Response 500 (Message ''Failed to update task'')"
  "fst (updateTask example_db 2 7 [(''id'', JStr ''abc'')])
     = Response 500 (Message ''Failed to update task'')"
  "fst (updateTask example_db 2 7 []) = Response 500 (Message ''Failed to update task'')"
  "fst (updateTask example_db 2 7 [(''status'', JStr ''completed''), (''Completed'', JBool False)])
     = Unmodelled"
proof -
  have f: "find (owned 7 2) (tasks example_db) = Some bobs_task"
    by (simp add: example_db_def bob_owns_task)
  have "modelled (derive_completed [(''colour'', JStr ''red'')])"
    and "column_of ''colour'' = None"
    by code_simp+
  then show "fst (updateTask example_db 2 7 [(''colour'', JStr ''red'')])
     = Response 500 (Message ''Failed to update task'')"
    by (simp add: updateTask_def f update_task_rows_def update_refused_def derive_completed_def)
  have "modelled (derive_completed [(''id'', JStr ''abc'')])"
    and "assignments (derive_completed [(''id'', JStr ''abc'')]) = [(''id'', JStr ''abc'')]"
    by code_simp+
  then show "fst (updateTask example_db 2 7 [(''id'', JStr ''abc'')])
     = Response 500 (Message ''Failed to update task'')"
    by (simp add: updateTask_def f update_task_rows_def update_refused_def key_clash_def)
  have "modelled (derive_completed [])" by code_simp
  then show "fst (updateTask example_db 2 7 []) = Response 500 (Message ''Failed to update task'')"
    by (simp add: updateTask_def f update_task_rows_def update_refused_def derive_completed_def)
  have "\<not> modelled (derive_completed [(''status'', JStr ''completed''), (''Completed'', JBool False)])"
    by code_simp
  then show "fst (updateTask example_db 2 7
                   [(''status'', JStr ''completed''), (''Completed'', JBool False)]) = Unmodelled"
    by (simp add: updateTask_def f update_task_rows_def)
qed

subsection \<open>Consistency of status and completed\<close>







lemma createTask_covered:
  "row_known (task_row now uid b) \<Longrightarrow> fst (createTask d now uid b) \<noteq> Unmodelled"
  by (simp add: createTask_def insert_task_def Let_def)

lemma updateTask_covered:
  "modelled (derive_completed u) \<Longrightarrow> fst (updateTask d uid tid u) \<noteq> Unmodelled"
  by (simp add: updateTask_def update_task_rows_def split: option.splits)




section \<open>Properties of account deletion\<close>

text \<open>
  Claim C3. Deleting an account removes the user's tasks and the user row in one
  transaction. When no user row has the caller's id the handler throws, the
  transaction rolls back, the answer is the failure and the store is exactly the one
  before the request: no task is removed.
\<close>

theorem C3_delete_account_all_or_nothing:
  "deleteAccount d userId =
     (if \<exists>u \<in> set (users d). user_id u = userId
      then (Response 200 (Message ''Account and all data deleted successfully''),
            d\<lparr>tasks := filter (\<lambda>t. t ''user_id'' \<noteq> Some (JNum userId)) (tasks d),
              users := filter (\<lambda>u. user_id u \<noteq> userId) (users d)\<rparr>)
      else (Response 500 (Message ''Failed to delete account''), d))"
proof (cases "\<exists>u \<in> set (users d). user_id u = userId")
  case True
  then have "length (filter (\<lambda>u. user_id u = userId) (users d)) \<noteq> 0"
    by (auto simp: filter_empty_conv)
  with True show ?thesis
    by (simp add: deleteAccount_def transaction_def Let_def)
next
  case False
  then have "length (filter (\<lambda>u. user_id u = userId) (users d)) = 0"
    by (auto simp: filter_empty_conv)
  with False show ?thesis
    by (simp add: deleteAccount_def transaction_def Let_def)
qed

theorem C3_delete_account_all_or_nothing_witness:
  "deleteAccount orphan_db 2 = (Response 500 (Message ''Failed to delete account''), orphan_db)
   \<and> tasks orphan_db = [bobs_task]
   \<and> bobs_task ''user_id'' = Some (JNum 2)
   \<and> fst (deleteAccount example_db 2)
       = Response 200 (Message ''Account and all data deleted successfully'')
   \<and> tasks (snd (deleteAccount example_db 2)) = []
   \<and> users (snd (deleteAccount example_db 2)) = [alice]"
  using C3_delete_account_all_or_nothing [of orphan_db 2]
    C3_delete_account_all_or_nothing [of example_db 2]
  by (simp add: orphan_db_def example_db_def alice_def bob_def bobs_task_def)

section \<open>Properties of authentication\<close>

lemma bearer_header_split:
  "split_on (Ch (CHR '' '')) (map Ch ''Bearer '' @ [Tok t]) = [map Ch ''Bearer'', [Tok t]]"
  by simp

text \<open>
  Claim C4. The token \<open>signToken\<close> issues for a user carries the user's id and username
  and expires 24 hours after issue. Presented as \<^verbatim>\<open>Bearer <token>\<close> before that, to a
  server with the same key, it passes \<open>requireAuth\<close>, and the identity attached to the
  request is that id and that username.
\<close>

theorem C4_token_round_trip:
  assumes "now' div 1000 < now div 1000 + 24 * 60 * 60"
  shows "\<exists>decoded.
           requireAuth secret now' (Some (map Ch ''Bearer '' @ [Tok (signToken secret now u)]))
             = Inr decoded
           \<and> claim_id decoded = user_id u
           \<and> claim_username decoded = username u"
proof -
  let ?c = "\<lparr>claim_id = user_id u, claim_username = username u,
             iat = now div 1000, exp = now div 1000 + JWT_EXPIRE\<rparr>"
  have tok: "signToken secret now u = Jwt ?c secret"
    by (simp add: signToken_def jwt_sign_def)
  have "jwt_verify [Tok (signToken secret now u)] secret now' = Some ?c"
    using assms by (simp add: tok jwt_verify_def JWT_EXPIRE_def)
  moreover have "startsWith (map Ch ''Bearer '' @ [Tok (signToken secret now u)]) (map Ch ''Bearer '')"
    by (simp add: startsWith_def)
  ultimately have "requireAuth secret now' (Some (map Ch ''Bearer '' @ [Tok (signToken secret now u)]))
      = Inr ?c"
    unfolding requireAuth_def bearer_header_split by simp
  then show ?thesis by simp
qed

theorem C4_token_round_trip_witness:
  "\<exists>decoded.
     requireAuth secret_key (1704139200000 + 86399999)
        (Some (map Ch ''Bearer '' @ [Tok (signToken secret_key 1704139200000 alice)])) = Inr decoded
     \<and> claim_id decoded = 1
     \<and> claim_username decoded = ''alice''"
proof -
  have "(1704139200000 + 86399999) div 1000 < (1704139200000 :: int) div 1000 + 24 * 60 * 60"
    by simp
  from C4_token_round_trip [OF this, of secret_key alice]
  show ?thesis by (simp add: alice_def)
qed

lemma expired_token_rejected:
  assumes "now div 1000 + 24 * 60 * 60 \<le> now' div 1000"
  shows "requireAuth secret now' (Some (map Ch ''Bearer '' @ [Tok (signToken secret now u)]))
           = Inl (Response 401 (Message ''Invalid or expired token''))"
  using assms unfolding requireAuth_def bearer_header_split
  by (simp add: startsWith_def signToken_def jwt_sign_def jwt_verify_def JWT_EXPIRE_def)

lemma foreign_key_rejected:
  assumes "key \<noteq> secret"
  shows "requireAuth secret now' (Some (map Ch ''Bearer '' @ [Tok (signToken key now u)]))
           = Inl (Response 401 (Message ''Invalid or expired token''))"
  using assms unfolding requireAuth_def bearer_header_split
  by (simp add: startsWith_def signToken_def jwt_sign_def jwt_verify_def)

section \<open>Properties of login\<close>

lemma login_unknown_email:
  assumes "find (\<lambda>u. JStr (email u) = e) (users d) = None"
  shows "login cmp secret now d (b(''email'' \<mapsto> e))
           = Response 401 (Message ''Incorrect email or password'')"
  using assms by (simp add: login_def)

lemma login_wrong_string_password:
  assumes "find (\<lambda>u. JStr (email u) = e) (users d) = Some u" and "\<not> cmp pw (password u)"
  shows "login cmp secret now d [''email'' \<mapsto> e, ''password'' \<mapsto> JStr pw]
           = Response 401 (Message ''Incorrect email or password'')"
  using assms by (simp add: login_def)

text \<open>
  Claim C5 asks that a login with an unregistered email and a login with a registered
  email and a wrong password get the same answer. For a password that is a string they
  do (the two lemmas above). A request whose \<^verbatim>\<open>password\<close> is absent gets 401 for an
  unregistered email but 500 "Login failed" for a registered one, because
  \<^verbatim>\<open>bcrypt.compare\<close> is only reached, and only throws, once a user row was found: the
  answers tell whether the email is registered.
\<close>

theorem C5_login_without_password_reveals_registration:
  "login cmp secret now example_db [''email'' \<mapsto> JStr ''alice@example.com'']
     = Response 500 (Message ''Login failed'')
   \<and> login cmp secret now example_db [''email'' \<mapsto> JStr ''nobody@example.com'']
     = Response 401 (Message ''Incorrect email or password'')"
  by (simp add: login_def example_db_def alice_def bob_def)

section \<open>Properties of the schema migration\<close>

lemma and_then_ok [simp]: "and_then (None, s) f = f s"
  by (simp add: and_then_def)

lemma and_then_err [simp]: "and_then (Some e, s) f = (Some e, s)"
  by (simp add: and_then_def)

lemma names_rename:
  "column_names (rename_in_table a b t) = map (\<lambda>n. if n = a then b else n) (column_names t)"
  by (simp add: column_names_def rename_in_table_def comp_def if_distrib cong: if_cong)

lemma names_add: "column_names (add_to_table c v t) = column_names t @ [cname c]"
  by (simp add: column_names_def add_to_table_def)

lemma names_drop: "column_names (drop_from_table a t) = filter (\<lambda>n. n \<noteq> a) (column_names t)"
  by (simp add: column_names_def drop_from_table_def filter_map comp_def)

lemma names_set: "column_names (set_in_table c v t) = column_names t"
  by (simp add: column_names_def set_in_table_def)

lemma names_users_columns:
  "column_names \<lparr>columns = users_columns, rows = rs\<rparr>
     = [''id'', ''username'', ''email'', ''password'', ''browser_notifications'']"
  by (simp add: column_names_def users_columns_def col_def)

lemma names_tasks_columns:
  "column_names \<lparr>columns = tasks_columns, rows = rs\<rparr>
     = [''id'', ''title'', ''description'', ''priority'', ''status'', ''dueDate'', ''completed'',
        ''user_id'', ''created_at'']"
  by (simp add: column_names_def tasks_columns_def col_def)

lemma renamed_names:
  assumes "a \<noteq> b"
  shows "a \<notin> set (map (\<lambda>n. if n = a then b else n) ns)"
    and "a \<in> set ns \<Longrightarrow> b \<in> set (map (\<lambda>n. if n = a then b else n) ns)"
  using assms by (induction ns) auto

lemma create_users_result:
  "create_users s =
     (None, s(''users'' \<mapsto> (case s ''users'' of None \<Rightarrow> \<lparr>columns = users_columns, rows = []\<rparr>
                                | Some u \<Rightarrow> u)))"
  by (cases "s ''users''")
     (simp_all add: create_users_def createTable_def hasTable_def map_upd_triv)

lemma create_tasks_result:
  "create_tasks s =
     (None, s(''tasks'' \<mapsto> (case s ''tasks'' of None \<Rightarrow> \<lparr>columns = tasks_columns, rows = []\<rparr>
                                | Some t \<Rightarrow> t)))"
  by (cases "s ''tasks''")
     (simp_all add: create_tasks_def createTable_def hasTable_def map_upd_triv)

lemma rename_notifications_result:
  assumes "s ''users'' = Some u"
    and "\<not> (''email_notifications'' \<in> set (column_names u)
           \<and> ''browser_notifications'' \<in> set (column_names u))"
  shows "rename_notifications s =
     (None, s(''users'' \<mapsto> (if ''email_notifications'' \<in> set (column_names u)
                            then rename_in_table ''email_notifications'' ''browser_notifications'' u
                            else u)))"
  using assms
  by (auto simp: rename_notifications_def renameColumn_def hasColumn_def map_upd_triv)

lemma rename_notifications_clash:
  assumes "s ''users'' = Some u"
    and "''email_notifications'' \<in> set (column_names u)"
    and "''browser_notifications'' \<in> set (column_names u)"
  shows "rename_notifications s = (Some ''duplicate column name'', s)"
  using assms by (simp add: rename_notifications_def renameColumn_def hasColumn_def)

lemma add_notifications_result:
  assumes "s ''users'' = Some u"
  shows "add_notifications s =
     (None, s(''users'' \<mapsto> (if ''browser_notifications'' \<in> set (column_names u) then u
                            else add_to_table
                              ((col ''boolean'' ''browser_notifications'')\<lparr>dflt := DefaultTo (JBool True)\<rparr>)
                              (JBool True) u)))"
  using assms
  by (auto simp: add_notifications_def addColumn_def hasColumn_def map_upd_triv col_def)

lemma drop_reminder_sent_result:
  assumes "s ''tasks'' = Some t"
  shows "drop_reminder_sent s =
     (None, s(''tasks'' \<mapsto> (if ''reminder_sent'' \<in> set (column_names t)
                            then drop_from_table ''reminder_sent'' t else t)))"
  using assms
  by (auto simp: drop_reminder_sent_def dropColumn_def hasColumn_def map_upd_triv)

lemma add_created_at_result:
  assumes "s ''tasks'' = Some t"
  shows "add_created_at now s =
     (None, s(''tasks'' \<mapsto> (if ''created_at'' \<in> set (column_names t) then t
                            else set_in_table ''created_at'' (JStr (toISOString now))
                                   (add_to_table (col ''datetime'' ''created_at'') JNull t))))"
  using assms
  by (auto simp: add_created_at_def addColumn_def update_all_def hasColumn_def map_upd_triv
      col_def names_add)

lemma restrict_rename:
  "a \<in> K \<Longrightarrow> b \<in> K \<Longrightarrow> rename_in_row a b r |` (- K) = r |` (- K)"
  by (rule ext) (simp add: restrict_map_def rename_in_row_def)

lemma restrict_upd: "a \<in> K \<Longrightarrow> (r(a := v)) |` (- K) = r |` (- K)"
  by (rule ext) (simp add: restrict_map_def)

lemma filter_map_unchanged:
  "(\<forall>x \<in> set xs. P (f x) = P x \<and> (P x \<longrightarrow> f x = x)) \<Longrightarrow> filter P (map f xs) = filter P xs"
  by (induction xs) auto

lemma same_rows_rename:
  assumes "a \<in> set ks" "b \<in> set ks"
  shows "same_rows_except ks t (rename_in_table a b t)"
    and "filter (\<lambda>c. cname c \<notin> set ks) (columns (rename_in_table a b t))
           = filter (\<lambda>c. cname c \<notin> set ks) (columns t)"
proof -
  show "same_rows_except ks t (rename_in_table a b t)"
    using assms by (simp add: same_rows_except_def rename_in_table_def restrict_rename)
  show "filter (\<lambda>c. cname c \<notin> set ks) (columns (rename_in_table a b t))
           = filter (\<lambda>c. cname c \<notin> set ks) (columns t)"
    unfolding rename_in_table_def table.simps using assms
    by (intro filter_map_unchanged) auto
qed

lemma same_rows_add:
  assumes "cname c \<in> set ks"
  shows "same_rows_except ks t (add_to_table c v t)"
    and "filter (\<lambda>c. cname c \<notin> set ks) (columns (add_to_table c v t))
           = filter (\<lambda>c. cname c \<notin> set ks) (columns t)"
  using assms by (simp_all add: same_rows_except_def add_to_table_def restrict_upd)

lemma same_rows_drop:
  assumes "a \<in> set ks"
  shows "same_rows_except ks t (drop_from_table a t)"
    and "filter (\<lambda>c. cname c \<notin> set ks) (columns (drop_from_table a t))
           = filter (\<lambda>c. cname c \<notin> set ks) (columns t)"
proof -
  show "same_rows_except ks t (drop_from_table a t)"
    using assms by (simp add: same_rows_except_def drop_from_table_def restrict_upd)
  have "filter (\<lambda>c. cname c \<noteq> a \<and> cname c \<notin> set ks) (columns t)
      = filter (\<lambda>c. cname c \<notin> set ks) (columns t)"
    using assms by (intro filter_cong) auto
  then show "filter (\<lambda>c. cname c \<notin> set ks) (columns (drop_from_table a t))
           = filter (\<lambda>c. cname c \<notin> set ks) (columns t)"
    by (simp add: drop_from_table_def)
qed

lemma same_rows_set:
  assumes "c \<in> set ks"
  shows "same_rows_except ks t (set_in_table c v t)"
    and "columns (set_in_table c v t) = columns t"
  using assms by (simp_all add: same_rows_except_def set_in_table_def restrict_upd)

lemma same_rows_refl: "same_rows_except ks t t"
  by (simp add: same_rows_except_def)

lemma same_rows_trans:
  "same_rows_except ks t t' \<Longrightarrow> same_rows_except ks t' t'' \<Longrightarrow> same_rows_except ks t t''"
  by (simp add: same_rows_except_def)

lemma migrate_users_names:
  "''email_notifications'' \<notin> set (column_names (migrate_users uo))
   \<and> ''browser_notifications'' \<in> set (column_names (migrate_users uo))"
  by (simp add: migrate_users_def Let_def names_rename names_add renamed_names col_def)

lemma migrate_tasks_names:
  "''reminder_sent'' \<notin> set (column_names (migrate_tasks now to))
   \<and> ''created_at'' \<in> set (column_names (migrate_tasks now to))"
  by (simp add: migrate_tasks_def Let_def names_drop names_add names_set col_def)

lemma migrate_users_keeps:
  "same_rows_except migration_columns u (migrate_users (Some u))
   \<and> filter (\<lambda>c. cname c \<notin> set migration_columns) (columns (migrate_users (Some u)))
       = filter (\<lambda>c. cname c \<notin> set migration_columns) (columns u)"
proof -
  have e: "''email_notifications'' \<in> set migration_columns"
    and b: "''browser_notifications'' \<in> set migration_columns"
    by (simp_all add: migration_columns_def)
  have bc: "cname ((col ''boolean'' ''browser_notifications'')\<lparr>dflt := DefaultTo (JBool True)\<rparr>)
      \<in> set migration_columns"
    by (simp add: migration_columns_def col_def)
  show ?thesis
    unfolding migrate_users_def Let_def
    using same_rows_rename [OF e b] same_rows_add [OF bc] same_rows_refl same_rows_trans
    by (simp add: same_rows_except_def)
qed

lemma migrate_tasks_keeps:
  "same_rows_except migration_columns t (migrate_tasks now (Some t))
   \<and> filter (\<lambda>c. cname c \<notin> set migration_columns) (columns (migrate_tasks now (Some t)))
       = filter (\<lambda>c. cname c \<notin> set migration_columns) (columns t)"
proof -
  have r: "''reminder_sent'' \<in> set migration_columns"
    and c: "''created_at'' \<in> set migration_columns"
    by (simp_all add: migration_columns_def)
  have cc: "cname (col ''datetime'' ''created_at'') \<in> set migration_columns"
    by (simp add: migration_columns_def col_def)
  show ?thesis
    unfolding migrate_tasks_def Let_def
    using same_rows_drop [OF r] same_rows_add [OF cc] same_rows_set [OF c]
    by (simp add: same_rows_except_def)
qed

lemma migrate_users_renamed:
  assumes "''email_notifications'' \<in> set (column_names u)"
  shows "migrate_users (Some u)
           = rename_in_table ''email_notifications'' ''browser_notifications'' u"
  using assms by (simp add: migrate_users_def Let_def names_rename renamed_names)

lemma migrate_users_untouched:
  assumes "''email_notifications'' \<notin> set (column_names u)"
    and "''browser_notifications'' \<in> set (column_names u)"
  shows "migrate_users (Some u) = u"
  using assms by (simp add: migrate_users_def Let_def)

lemma migrate_users_values:
  "''email_notifications'' \<in> set (column_names u) \<Longrightarrow>
     column_values ''browser_notifications'' (migrate_users (Some u))
       = column_values ''email_notifications'' u"
  "''email_notifications'' \<notin> set (column_names u) \<Longrightarrow>
   ''browser_notifications'' \<in> set (column_names u) \<Longrightarrow>
     column_values ''browser_notifications'' (migrate_users (Some u))
       = column_values ''browser_notifications'' u"
  by (simp_all add: migrate_users_renamed migrate_users_untouched column_values_def
      rename_in_table_def rename_in_row_def)

lemma migrate_tasks_with_created_at:
  assumes "''created_at'' \<in> set (column_names t)"
  shows "migrate_tasks now (Some t)
           = (if ''reminder_sent'' \<in> set (column_names t)
              then drop_from_table ''reminder_sent'' t else t)"
  using assms by (simp add: migrate_tasks_def Let_def names_drop)

lemma migrate_tasks_values:
  "''created_at'' \<in> set (column_names t) \<Longrightarrow>
     column_values ''created_at'' (migrate_tasks now (Some t)) = column_values ''created_at'' t"
  by (simp add: migrate_tasks_with_created_at column_values_def drop_from_table_def)

lemma migrate_result:
  assumes "\<not> (hasColumn s ''users'' ''email_notifications''
             \<and> hasColumn s ''users'' ''browser_notifications'')"
  shows "migrate now s =
     (None, s(''users'' \<mapsto> migrate_users (s ''users''),
              ''tasks'' \<mapsto> migrate_tasks now (s ''tasks'')))"
proof -
  define u1 where "u1 = (case s ''users'' of None \<Rightarrow> \<lparr>columns = users_columns, rows = []\<rparr>
                          | Some u \<Rightarrow> u)"
  define t2 where "t2 = (case s ''tasks'' of None \<Rightarrow> \<lparr>columns = tasks_columns, rows = []\<rparr>
                          | Some t \<Rightarrow> t)"
  define u3 where "u3 = (if ''email_notifications'' \<in> set (column_names u1)
                         then rename_in_table ''email_notifications'' ''browser_notifications'' u1
                         else u1)"
  define u4 where "u4 = (if ''browser_notifications'' \<in> set (column_names u3) then u3
         else add_to_table
                ((col ''boolean'' ''browser_notifications'')\<lparr>dflt := DefaultTo (JBool True)\<rparr>)
                (JBool True) u3)"
  define t5 where "t5 = (if ''reminder_sent'' \<in> set (column_names t2)
                         then drop_from_table ''reminder_sent'' t2 else t2)"
  define t6 where "t6 = (if ''created_at'' \<in> set (column_names t5) then t5
         else set_in_table ''created_at'' (JStr (toISOString now))
                (add_to_table (col ''datetime'' ''created_at'') JNull t5))"
  define s1 where "s1 = s(''users'' \<mapsto> u1)"
  define s2 where "s2 = s1(''tasks'' \<mapsto> t2)"
  define s3 where "s3 = s2(''users'' \<mapsto> u3)"
  define s4 where "s4 = s3(''users'' \<mapsto> u4)"
  define s5 where "s5 = s4(''tasks'' \<mapsto> t5)"
  define s6 where "s6 = s5(''tasks'' \<mapsto> t6)"
  have nb: "\<not> (''email_notifications'' \<in> set (column_names u1)
              \<and> ''browser_notifications'' \<in> set (column_names u1))"
  proof (cases "s ''users''")
    case None
    then show ?thesis by (simp add: u1_def names_users_columns)
  next
    case (Some u)
    with assms show ?thesis by (simp add: u1_def hasColumn_def)
  qed
  have 1: "create_users s = (None, s1)"
    by (simp add: create_users_result s1_def u1_def)
  have "s1 ''tasks'' = s ''tasks''" by (simp add: s1_def)
  then have 2: "create_tasks s1 = (None, s2)"
    by (simp add: create_tasks_result s2_def t2_def)
  have "s2 ''users'' = Some u1" by (simp add: s2_def s1_def)
  from rename_notifications_result [of s2 u1, OF this nb]
  have 3: "rename_notifications s2 = (None, s3)"
    by (simp add: s3_def u3_def)
  have "s3 ''users'' = Some u3" by (simp add: s3_def)
  from add_notifications_result [of s3 u3, OF this]
  have 4: "add_notifications s3 = (None, s4)"
    by (simp add: s4_def u4_def)
  have "s4 ''tasks'' = Some t2" by (simp add: s4_def s3_def s2_def)
  from drop_reminder_sent_result [of s4 t2, OF this]
  have 5: "drop_reminder_sent s4 = (None, s5)"
    by (simp add: s5_def t5_def)
  have "s5 ''tasks'' = Some t5" by (simp add: s5_def)
  from add_created_at_result [of s5 t5 now, OF this]
  have 6: "add_created_at now s5 = (None, s6)"
    by (simp add: s6_def t6_def)
  have m: "migrate now s = (None, s6)"
    by (simp add: migrate_def 1 2 3 4 5 6)
  have u: "u4 = migrate_users (s ''users'')"
    by (simp add: migrate_users_def Let_def u4_def u3_def u1_def)
  have t: "t6 = migrate_tasks now (s ''tasks'')"
    by (simp add: migrate_tasks_def Let_def t6_def t5_def t2_def)
  have "s6 = s(''users'' \<mapsto> u4, ''tasks'' \<mapsto> t6)"
    by (rule ext) (simp add: s6_def s5_def s4_def s3_def s2_def s1_def)
  with m u t show ?thesis by simp
qed

lemma migrate_clash:
  assumes "hasColumn s ''users'' ''email_notifications''"
    and "hasColumn s ''users'' ''browser_notifications''"
  shows "fst (migrate now s) = Some ''duplicate column name''"
proof -
  from assms obtain u where u: "s ''users'' = Some u"
    and e: "''email_notifications'' \<in> set (column_names u)"
    and b: "''browser_notifications'' \<in> set (column_names u)"
    by (cases "s ''users''") (auto simp: hasColumn_def)
  define s2 where "s2 = s(''tasks'' \<mapsto> (case s ''tasks'' of
      None \<Rightarrow> \<lparr>columns = tasks_columns, rows = []\<rparr> | Some t \<Rightarrow> t))"
  have 1: "create_users s = (None, s)"
    using u by (simp add: create_users_result map_upd_triv)
  have 2: "create_tasks s = (None, s2)"
    by (simp add: create_tasks_result s2_def)
  have "s2 ''users'' = Some u" using u by (simp add: s2_def)
  from rename_notifications_clash [of s2 u, OF this e b]
  have 3: "rename_notifications s2 = (Some ''duplicate column name'', s2)" .
  show ?thesis by (simp add: migrate_def 1 2 3)
qed

lemma migrate_succeeds_iff:
  "(fst (migrate now s) = None)
     = (\<not> (hasColumn s ''users'' ''email_notifications''
            \<and> hasColumn s ''users'' ''browser_notifications''))"
  using migrate_result [of s now] migrate_clash [of s now] by auto

lemma migrated_fixed:
  assumes "migrated s"
  shows "migrate now s = (None, s)"
  using assms
  by (simp add: migrated_def migrate_def create_users_def create_tasks_def
      rename_notifications_def add_notifications_def drop_reminder_sent_def add_created_at_def)

lemma migrated_result:
  "migrated (s(''users'' \<mapsto> migrate_users uo, ''tasks'' \<mapsto> migrate_tasks now to))"
  using migrate_users_names [of uo] migrate_tasks_names [of now to]
  by (simp add: migrated_def hasTable_def hasColumn_def)

lemma kept_result:
  "kept s (s(''users'' \<mapsto> migrate_users (s ''users''),
             ''tasks'' \<mapsto> migrate_tasks now (s ''tasks'')))"
  unfolding kept_def
proof (intro allI impI)
  fix tn t
  assume st: "s tn = Some t"
  let ?s' = "s(''users'' \<mapsto> migrate_users (s ''users''),
               ''tasks'' \<mapsto> migrate_tasks now (s ''tasks''))"
  consider (users) "tn = ''users''" | (tasks) "tn = ''tasks''"
    | (other) "tn \<noteq> ''users''" "tn \<noteq> ''tasks''" by blast
  then show "\<exists>t'. ?s' tn = Some t'
           \<and> same_rows_except migration_columns t t'
           \<and> filter (\<lambda>c. cname c \<notin> set migration_columns) (columns t')
               = filter (\<lambda>c. cname c \<notin> set migration_columns) (columns t)
           \<and> (tn = ''users'' \<and> ''email_notifications'' \<in> set (column_names t) \<longrightarrow>
                column_values ''browser_notifications'' t'
                  = column_values ''email_notifications'' t)
           \<and> (tn = ''users'' \<and> ''email_notifications'' \<notin> set (column_names t)
                \<and> ''browser_notifications'' \<in> set (column_names t) \<longrightarrow>
                column_values ''browser_notifications'' t'
                  = column_values ''browser_notifications'' t)
           \<and> (tn = ''tasks'' \<and> ''created_at'' \<in> set (column_names t) \<longrightarrow>
                column_values ''created_at'' t' = column_values ''created_at'' t)"
  proof cases
    case users
    with st have "?s' tn = Some (migrate_users (Some t))" by simp
    with users migrate_users_keeps [of t] migrate_users_values [of t] show ?thesis
      by simp
  next
    case tasks
    with st have "?s' tn = Some (migrate_tasks now (Some t))" by simp
    with tasks migrate_tasks_keeps [of t now] migrate_tasks_values [of t now] show ?thesis
      by simp
  next
    case other
    with st have "?s' tn = Some t" by simp
    with other show ?thesis by (simp add: same_rows_refl)
  qed
qed

text \<open>
  Claim C8, as the routine has it. A run meets an error exactly when \<^verbatim>\<open>users\<close> holds both
  \<^verbatim>\<open>email_notifications\<close> and \<^verbatim>\<open>browser_notifications\<close> (the rename is refused). A run
  without error leaves both tables with \<^verbatim>\<open>browser_notifications\<close> and \<^verbatim>\<open>created_at\<close>
  present and the two legacy columns gone, running it again changes nothing and meets
  no error, and the rows are kept: every row keeps its values in all columns but the
  four the routine is about, those columns' declarations apart the declarations are
  the same, a renamed column keeps its values, and notification and creation columns
  that were already there keep theirs.
\<close>

theorem C8_migrate_idempotent_keeps_rows:
  "((fst (migrate now s) = None)
      = (\<not> (hasColumn s ''users'' ''email_notifications''
             \<and> hasColumn s ''users'' ''browser_notifications'')))
   \<and> (migrate now s = (None, s') \<longrightarrow>
        migrated s' \<and> migrate now' s' = (None, s') \<and> kept s s')"
proof (intro conjI impI)
  show "(fst (migrate now s) = None)
      = (\<not> (hasColumn s ''users'' ''email_notifications''
             \<and> hasColumn s ''users'' ''browser_notifications''))"
    by (rule migrate_succeeds_iff)
next
  assume a: "migrate now s = (None, s')"
  then have "fst (migrate now s) = None" by simp
  with migrate_succeeds_iff [of now s]
  have "\<not> (hasColumn s ''users'' ''email_notifications''
             \<and> hasColumn s ''users'' ''browser_notifications'')"
    by blast
  from migrate_result [OF this, of now] a
  have s': "s' = s(''users'' \<mapsto> migrate_users (s ''users''),
                   ''tasks'' \<mapsto> migrate_tasks now (s ''tasks''))"
    by simp
  show "migrated s'" unfolding s' by (rule migrated_result)
  then show "migrate now' s' = (None, s')" by (rule migrated_fixed)
  show "kept s s'" unfolding s' by (rule kept_result)
qed

theorem C8_migrate_idempotent_keeps_rows_witness:
  "fst (migrate 1704139200000 legacy_schema) = None
   \<and> migrated (snd (migrate 1704139200000 legacy_schema))
   \<and> migrate 1704225600000 (snd (migrate 1704139200000 legacy_schema))
       = (None, snd (migrate 1704139200000 legacy_schema))
   \<and> kept legacy_schema (snd (migrate 1704139200000 legacy_schema))
   \<and> map_option (column_values ''browser_notifications'')
        (snd (migrate 1704139200000 legacy_schema) ''users'') = Some [Some (JBool False)]
   \<and> map_option (column_values ''title'')
        (snd (migrate 1704139200000 legacy_schema) ''tasks'') = Some [Some (JStr ''Buy milk'')]"
proof -
  have nb: "\<not> (hasColumn legacy_schema ''users'' ''email_notifications''
              \<and> hasColumn legacy_schema ''users'' ''browser_notifications'')"
    by code_simp
  with C8_migrate_idempotent_keeps_rows [THEN conjunct1, of 1704139200000 legacy_schema]
  have ok: "fst (migrate 1704139200000 legacy_schema) = None" by blast
  then have "migrate 1704139200000 legacy_schema
      = (None, snd (migrate 1704139200000 legacy_schema))"
    by (cases "migrate 1704139200000 legacy_schema") simp
  from C8_migrate_idempotent_keeps_rows [THEN conjunct2, THEN mp, OF this]
  have "migrated (snd (migrate 1704139200000 legacy_schema))
     \<and> migrate 1704225600000 (snd (migrate 1704139200000 legacy_schema))
         = (None, snd (migrate 1704139200000 legacy_schema))
     \<and> kept legacy_schema (snd (migrate 1704139200000 legacy_schema))" .
  moreover have "map_option (column_values ''browser_notifications'')
        (snd (migrate 1704139200000 legacy_schema) ''users'') = Some [Some (JBool False)]"
    by code_simp
  moreover have "map_option (column_values ''title'')
        (snd (migrate 1704139200000 legacy_schema) ''tasks'') = Some [Some (JStr ''Buy milk'')]"
    by code_simp
  ultimately show ?thesis using ok by blast
qed

text \<open>
  The claim as stated fails on a store of the earlier version, with
  \<^verbatim>\<open>email_notifications\<close> and \<^verbatim>\<open>reminder_sent\<close> and without \<^verbatim>\<open>created_at\<close>. The run meets
  no error, but the declarations of \<^verbatim>\<open>tasks\<close> it leaves are not those a fresh install
  gets (the added \<^verbatim>\<open>created_at\<close> has no default), and the row's \<^verbatim>\<open>reminder_sent\<close> value is
  gone with its column.
\<close>

theorem C8_counterexample:
  "fst (migrate 1704139200000 legacy_schema) = None
   \<and> fst (migrate 1704139200000 Map.empty) = None
   \<and> map_option columns (snd (migrate 1704139200000 legacy_schema) ''tasks'')
       \<noteq> map_option columns (snd (migrate 1704139200000 Map.empty) ''tasks'')
   \<and> map_option (column_values ''reminder_sent'') (legacy_schema ''tasks'')
       = Some [Some (JBool True)]
   \<and> map_option (column_values ''reminder_sent'')
        (snd (migrate 1704139200000 legacy_schema) ''tasks'') = Some [None]"
  by code_simp

section \<open>Properties of dates\<close>

lemma below_ten:
  fixes k :: nat
  assumes "k < 10"
  shows "k = 0 \<or> k = 1 \<or> k = 2 \<or> k = 3 \<or> k = 4 \<or> k = 5 \<or> k = 6 \<or> k = 7 \<or> k = 8 \<or> k = 9"
  using assms by arith

lemma digit_val_nth:
  assumes "k < 10"
  shows "digit_val (''0123456789'' ! k) = Some (int k)"
    and "''0123456789'' ! k \<noteq> CHR ''T''" and "''0123456789'' ! k \<noteq> CHR ''-''"
  using below_ten [OF assms] by (auto simp: digit_val_def)

lemma digit_val_digit: "digit_val (digit n) = Some (n mod 10)"
proof -
  have "nat (n mod 10) < 10" by simp
  from digit_val_nth(1) [OF this] show ?thesis by (simp add: digit_def)
qed

lemma digit_not_sep: "digit n \<noteq> CHR ''T''" "digit n \<noteq> CHR ''-''"
proof -
  have "nat (n mod 10) < 10" by simp
  from digit_val_nth(2,3) [OF this]
  show "digit n \<noteq> CHR ''T''" "digit n \<noteq> CHR ''-''" by (simp_all add: digit_def)
qed

lemma four_digits:
  fixes y :: int
  assumes "0 \<le> y" "y \<le> 9999"
  shows "1000 * (y div 1000 mod 10) + 100 * (y div 100 mod 10) + 10 * (y div 10 mod 10) + y mod 10 = y"
proof -
  have h: "y div 100 = y div 10 div 10" "y div 1000 = y div 10 div 10 div 10"
    using zdiv_zmult2_eq [of 10 y 10] zdiv_zmult2_eq [of 10 "y div 10" 10]
      zdiv_zmult2_eq [of 100 y 10] by simp_all
  have "y div 1000 \<le> 9999 div 1000" using assms(2) by (rule zdiv_mono1) simp
  moreover have "0 \<le> y div 1000" using assms(1) by simp
  ultimately have t: "y div 1000 mod 10 = y div 1000" by simp
  have a: "y = 10 * (y div 10) + y mod 10" by simp
  have b: "y div 10 = 10 * (y div 10 div 10) + y div 10 mod 10" by simp
  have c: "y div 10 div 10 = 10 * (y div 10 div 10 div 10) + y div 10 div 10 mod 10" by simp
  show ?thesis
    unfolding t unfolding h using a b c by linarith
qed

lemma two_digits:
  fixes m :: int
  assumes "0 \<le> m" "m \<le> 99"
  shows "10 * (m div 10 mod 10) + m mod 10 = m"
proof -
  have "m div 10 \<le> 99 div 10" using assms(2) by (rule zdiv_mono1) simp
  moreover have "0 \<le> m div 10" using assms(1) by simp
  ultimately have "m div 10 mod 10 = m div 10" by simp
  then show ?thesis by simp
qed

lemma split_on_append_sep:
  "sep \<notin> set xs \<Longrightarrow> split_on sep (xs @ sep # ys) = xs # split_on sep ys"
  by (induction xs) auto

lemma iso_date_eq:
  assumes "civil_from_days (t div ms_per_day) = (y, m, d)"
  shows "iso_date t = pad4 y @ ''-'' @ pad2 m @ ''-'' @ pad2 d"
proof -
  let ?date = "pad4 y @ ''-'' @ pad2 m @ ''-'' @ pad2 d"
  obtain rest where r: "toISOString t = ?date @ CHR ''T'' # rest"
    using assms by (simp add: toISOString_def Let_def)
  have "CHR ''T'' \<notin> set ?date"
    using digit_not_sep(1) [THEN not_sym] by (simp add: pad4_def pad2_def)
  from split_on_append_sep [OF this, of rest]
  have "split_on (CHR ''T'') (toISOString t) = ?date # split_on (CHR ''T'') rest"
    unfolding r .
  then show ?thesis by (simp add: iso_date_def)
qed

lemma Date_parse_digits:
  "Date_parse [digit a, digit b, digit c, digit e, CHR ''-'', digit f, digit g, CHR ''-'',
               digit h, digit i]
     = (if 1 \<le> 10 * (f mod 10) + g mod 10 \<and> 10 * (f mod 10) + g mod 10 \<le> 12
           \<and> 1 \<le> 10 * (h mod 10) + i mod 10 \<and> 10 * (h mod 10) + i mod 10 \<le> 31
        then Some (days_from_civil
                     (1000 * (a mod 10) + 100 * (b mod 10) + 10 * (c mod 10) + e mod 10)
                     (10 * (f mod 10) + g mod 10) (10 * (h mod 10) + i mod 10) * ms_per_day)
        else None)"
  by (simp add: Date_parse_def digit_val_digit)

lemma Date_parse_pad:
  assumes "0 \<le> y" "y \<le> 9999" "1 \<le> m" "m \<le> 12" "1 \<le> d" "d \<le> 31"
  shows "Date_parse (pad4 y @ ''-'' @ pad2 m @ ''-'' @ pad2 d)
           = Some (days_from_civil y m d * ms_per_day)"
proof -
  have y: "1000 * (y div 1000 mod 10) + 100 * (y div 100 mod 10) + 10 * (y div 10 mod 10)
             + y mod 10 = y"
    using assms by (intro four_digits) simp_all
  have m: "10 * (m div 10 mod 10) + m mod 10 = m"
    using assms by (intro two_digits) simp_all
  have d: "10 * (d div 10 mod 10) + d mod 10 = d"
    using assms by (intro two_digits) simp_all
  have "Date_parse (pad4 y @ ''-'' @ pad2 m @ ''-'' @ pad2 d)
      = Date_parse [digit (y div 1000), digit (y div 100), digit (y div 10), digit y, CHR ''-'',
         digit (m div 10), digit m, CHR ''-'', digit (d div 10), digit d]"
    by (simp add: pad4_def pad2_def)
  also have "\<dots> = Some (days_from_civil y m d * ms_per_day)"
    unfolding Date_parse_digits y m d using assms by simp
  finally show ?thesis .
qed

lemma leapless_step: "leapless_days x \<le> leapless_days (x + 1)"
proof -
  have a: "(x + 1) div 1460 \<le> x div 1460 + 1"
  proof -
    have "(x + 1) div 1460 \<le> (x + 1460) div 1460" by (rule zdiv_mono1) simp_all
    then show ?thesis by simp
  qed
  have b: "x div 36524 \<le> (x + 1) div 36524" by (rule zdiv_mono1) simp_all
  have b': "(x + 1) div 36524 \<le> x div 36524 + 1"
  proof -
    have "(x + 1) div 36524 \<le> (x + 36524) div 36524" by (rule zdiv_mono1) simp_all
    then show ?thesis by simp
  qed
  have c: "x div 146096 = x div 36524 div 4" "(x + 1) div 146096 = (x + 1) div 36524 div 4"
    using zdiv_zmult2_eq [of 4 x 36524] zdiv_zmult2_eq [of 4 "x + 1" 36524] by simp_all
  have "(x + 1) div 36524 div 4 - x div 36524 div 4 \<le> (x + 1) div 36524 - x div 36524"
    using b b' by linarith
  with a c show ?thesis unfolding leapless_days_def by linarith
qed

lemma leapless_mono: "x \<le> x' \<Longrightarrow> leapless_days x \<le> leapless_days x'"
proof (induction x' rule: int_ge_induct)
  case base
  show ?case by simp
next
  case (step i)
  with leapless_step [of i] show ?case by linarith
qed

lemma year_start_step:
  "year_start y + 365 \<le> year_start (y + 1)" "year_start (y + 1) \<le> year_start y + 366"
proof -
  define a0 a1 c0 c1 where "a0 = y div 4" and "a1 = (y + 1) div 4"
    and "c0 = a0 div 25" and "c1 = a1 div 25"
  have a: "a0 \<le> a1" unfolding a0_def a1_def by (rule zdiv_mono1) simp_all
  have a': "a1 \<le> a0 + 1"
  proof -
    have "(y + 1) div 4 \<le> (y + 4) div 4" by (rule zdiv_mono1) simp_all
    then show ?thesis by (simp add: a0_def a1_def)
  qed
  have c: "y div 100 = c0" "(y + 1) div 100 = c1"
    using zdiv_zmult2_eq [of 25 y 4] zdiv_zmult2_eq [of 25 "y + 1" 4]
    by (simp_all add: a0_def a1_def c0_def c1_def)
  have e: "c0 \<le> c1" unfolding c0_def c1_def using a by (rule zdiv_mono1) simp
  have d: "c1 - c0 \<le> a1 - a0"
  proof (cases "a1 = a0")
    case True
    then show ?thesis by (simp add: c0_def c1_def)
  next
    case False
    with a a' have "a1 = a0 + 1" by simp
    moreover have "(a0 + 1) div 25 \<le> (a0 + 25) div 25" by (rule zdiv_mono1) simp_all
    ultimately show ?thesis by (simp add: c0_def c1_def)
  qed
  have s0: "year_start y = 365 * y + a0 - c0"
    and s1: "year_start (y + 1) = 365 * y + 365 + a1 - c1"
    using c by (simp_all add: year_start_def a0_def a1_def)
  show "year_start y + 365 \<le> year_start (y + 1)"
    unfolding s0 s1 using d by simp
  show "year_start (y + 1) \<le> year_start y + 366"
    unfolding s0 s1 using a' e by simp
qed

lemma era_years_checked:
  "list_all (\<lambda>y. 365 * y \<le> leapless_days (year_start y)
                \<and> leapless_days (if y = 399 then 146096 else year_start (y + 1) - 1)
                     \<le> 365 * y + 364) [0..399]"
  by code_simp

lemma month_days_checked:
  "list_all (\<lambda>doy. 0 \<le> (5 * doy + 2) div 153 \<and> (5 * doy + 2) div 153 \<le> 11
                  \<and> 1 \<le> doy - (153 * ((5 * doy + 2) div 153) + 2) div 5 + 1
                  \<and> doy - (153 * ((5 * doy + 2) div 153) + 2) div 5 + 1 \<le> 31) [0..365]"
  by code_simp

lemma year_start_values: "year_start 0 = 0" "year_start 399 = 145731"
  by (simp_all add: year_start_def)

lemma year_of_era_exists:
  assumes "0 \<le> doe"
  shows "doe \<le> 146096 \<longrightarrow>
           (\<exists>y. 0 \<le> y \<and> y \<le> 399 \<and> year_start y \<le> doe
                \<and> doe \<le> (if y = 399 then 146096 else year_start (y + 1) - 1))"
  using assms
proof (induction doe rule: int_ge_induct)
  case base
  have "year_start 0 \<le> 0" "0 \<le> year_start (0 + 1) - 1"
    using year_start_step(1) [of 0] by (simp_all add: year_start_values)
  then show ?case by (intro impI exI [of _ 0]) simp
next
  case (step i)
  show ?case
  proof
    assume i: "i + 1 \<le> 146096"
    with step obtain y where y: "0 \<le> y" "y \<le> 399" "year_start y \<le> i"
      "i \<le> (if y = 399 then 146096 else year_start (y + 1) - 1)"
      by auto
    show "\<exists>y. 0 \<le> y \<and> y \<le> 399 \<and> year_start y \<le> i + 1
              \<and> i + 1 \<le> (if y = 399 then 146096 else year_start (y + 1) - 1)"
    proof (cases "i + 1 \<le> (if y = 399 then 146096 else year_start (y + 1) - 1)")
      case True
      with y show ?thesis by (intro exI [of _ y]) simp
    next
      case False
      with i have ny: "y \<noteq> 399" by auto
      with False y have eq: "year_start (y + 1) = i + 1" by simp
      from ny y have le: "y + 1 \<le> 399" by simp
      have "i + 1 \<le> (if y + 1 = 399 then 146096 else year_start (y + 1 + 1) - 1)"
        using year_start_step(1) [of "y + 1"] eq i by simp
      with le y eq show ?thesis by (intro exI [of _ "y + 1"]) simp
    qed
  qed
qed

lemma div_between:
  fixes l :: int
  assumes "365 * y \<le> l" "l \<le> 365 * y + 364"
  shows "l div 365 = y"
proof -
  have "l = (l - 365 * y) + y * 365" by simp
  then have "l div 365 = (l - 365 * y) div 365 + y"
    by (metis div_mult_self1 zero_neq_numeral add.commute)
  moreover have "(l - 365 * y) div 365 = 0"
    using assms by (intro div_pos_pos_trivial) simp_all
  ultimately show ?thesis by simp
qed

lemma year_of_era:
  assumes "0 \<le> doe" "doe \<le> 146096"
  defines "yoe \<equiv> leapless_days doe div 365"
  shows "0 \<le> yoe \<and> yoe \<le> 399 \<and> year_start yoe \<le> doe \<and> doe \<le> year_start yoe + 365"
proof -
  from year_of_era_exists [OF assms(1)] assms(2)
  obtain y where y: "0 \<le> y" "y \<le> 399" "year_start y \<le> doe"
    "doe \<le> (if y = 399 then 146096 else year_start (y + 1) - 1)"
    by blast
  then have "y \<in> set [0..399]" by simp
  with era_years_checked
  have c: "365 * y \<le> leapless_days (year_start y)"
    "leapless_days (if y = 399 then 146096 else year_start (y + 1) - 1) \<le> 365 * y + 364"
    by (auto simp: list_all_iff)
  have "leapless_days (year_start y) \<le> leapless_days doe"
    using y(3) by (rule leapless_mono)
  moreover have "leapless_days doe
      \<le> leapless_days (if y = 399 then 146096 else year_start (y + 1) - 1)"
    using y(4) by (rule leapless_mono)
  ultimately have "365 * y \<le> leapless_days doe" "leapless_days doe \<le> 365 * y + 364"
    using c by simp_all
  then have "yoe = y" unfolding yoe_def by (rule div_between)
  moreover have "doe \<le> year_start y + 365"
    using y(4) year_start_step(2) [of y] by (auto simp: year_start_values split: if_splits)
  ultimately show ?thesis using y by simp
qed

lemma month_day:
  fixes doy :: int
  assumes "0 \<le> doy" "doy \<le> 365"
  defines "mp \<equiv> (5 * doy + 2) div 153"
  shows "0 \<le> mp \<and> mp \<le> 11 \<and> 1 \<le> doy - (153 * mp + 2) div 5 + 1
       \<and> doy - (153 * mp + 2) div 5 + 1 \<le> 31"
proof -
  from assms have "doy \<in> set [0..365]" by simp
  with month_days_checked show ?thesis
    unfolding mp_def by (auto simp: list_all_iff)
qed

lemma civil_from_days_parts:
  assumes "civil_from_days z = (y, m, d)"
    and era: "era = (z + 719468) div 146097"
    and doe: "doe = z + 719468 - era * 146097"
    and yoe: "yoe = leapless_days doe div 365"
    and doy: "doy = doe - year_start yoe"
    and mp: "mp = (5 * doy + 2) div 153"
  shows "y = yoe + era * 400 + (if m \<le> 2 then 1 else 0)"
    and "m = (if mp < 10 then mp + 3 else mp - 9)"
    and "d = doy - (153 * mp + 2) div 5 + 1"
proof -
  have "civil_from_days z =
     (yoe + era * 400 + (if (if mp < 10 then mp + 3 else mp - 9) \<le> 2 then 1 else 0),
      (if mp < 10 then mp + 3 else mp - 9),
      doy - (153 * mp + 2) div 5 + 1)"
    unfolding civil_from_days_def Let_def
    unfolding era [symmetric] unfolding doe [symmetric] unfolding yoe [symmetric]
    unfolding doy [symmetric] unfolding mp [symmetric]
    by (rule refl)
  with assms(1) show "y = yoe + era * 400 + (if m \<le> 2 then 1 else 0)"
    and "m = (if mp < 10 then mp + 3 else mp - 9)"
    and "d = doy - (153 * mp + 2) div 5 + 1"
    by auto
qed

lemma civil_roundtrip:
  assumes "civil_from_days z = (y, m, d)"
  shows "days_from_civil y m d = z \<and> 1 \<le> m \<and> m \<le> 12 \<and> 1 \<le> d \<and> d \<le> 31"
proof -
  define era where "era = (z + 719468) div 146097"
  define doe where "doe = z + 719468 - era * 146097"
  define yoe where "yoe = leapless_days doe div 365"
  define doy where "doy = doe - year_start yoe"
  define mp where "mp = (5 * doy + 2) div 153"
  note p = civil_from_days_parts [OF assms era_def doe_def yoe_def doy_def mp_def]
  have dm: "doe = (z + 719468) mod 146097"
    by (simp add: doe_def era_def minus_div_mult_eq_mod)
  have "0 \<le> doe" "doe \<le> 146096" by (simp_all add: dm)
  from year_of_era [OF this]
  have yo: "0 \<le> yoe" "yoe \<le> 399" "0 \<le> doy" "doy \<le> 365"
    by (simp_all add: yoe_def doy_def)
  from month_day [OF yo(3,4)]
  have md: "0 \<le> mp" "mp \<le> 11" "1 \<le> d" "d \<le> 31"
    by (simp_all add: mp_def p(3))
  have m: "1 \<le> m" "m \<le> 12" "(if m > 2 then m - 3 else m + 9) = mp"
    using md(1,2) by (simp_all add: p(2))
  have y': "(if m \<le> 2 then y - 1 else y) = yoe + era * 400"
    by (simp add: p(1))
  have e: "(yoe + era * 400) div 400 = era"
    using yo(1,2) by (simp add: div_pos_pos_trivial)
  have dd: "(153 * mp + 2) div 5 + d - 1 = doy" by (simp add: p(3))
  have "days_from_civil y m d = era * 146097 + (year_start yoe + doy) - 719468"
    unfolding days_from_civil_def Let_def y' e m(3) dd by simp
  also have "\<dots> = era * 146097 + doe - 719468" by (simp add: doy_def)
  also have "\<dots> = z" by (simp add: doe_def)
  finally show ?thesis using m md by simp
qed

lemma civil_year_range:
  assumes "civil_from_days z = (y, m, d)" and "0 \<le> z" "z \<le> 2932896"
  shows "0 \<le> y \<and> y \<le> 9999"
proof -
  define era where "era = (z + 719468) div 146097"
  define doe where "doe = z + 719468 - era * 146097"
  define yoe where "yoe = leapless_days doe div 365"
  define doy where "doy = doe - year_start yoe"
  define mp where "mp = (5 * doy + 2) div 153"
  note p = civil_from_days_parts [OF assms(1) era_def doe_def yoe_def doy_def mp_def]
  have dm: "doe = (z + 719468) mod 146097"
    by (simp add: doe_def era_def minus_div_mult_eq_mod)
  have "0 \<le> doe" "doe \<le> 146096" by (simp_all add: dm)
  from year_of_era [OF this]
  have yo: "0 \<le> yoe" "yoe \<le> 399" "0 \<le> doy" "doy \<le> 365"
    by (simp_all add: yoe_def doy_def)
  from month_day [OF yo(3,4)] have mp0: "0 \<le> mp" by (simp add: mp_def)
  have "0 \<le> era" unfolding era_def using assms(2) by simp
  with yo p(1) have lo: "0 \<le> y" by simp
  have "(z + 719468) div 146097 \<le> 3652364 div 146097"
    using assms(3) by (intro zdiv_mono1) simp_all
  then have era: "era \<le> 24" by (simp add: era_def)
  have hi: "y \<le> 9999"
  proof (cases "era = 24 \<and> yoe = 399 \<and> m \<le> 2")
    case False
    then consider "era \<le> 23" | "era = 24" "yoe \<le> 398" | "era = 24" "yoe = 399" "\<not> m \<le> 2"
      using era yo(2) by linarith
    then show ?thesis
    proof cases
      case 1
      with yo(2) p(1) show ?thesis by (simp split: if_splits)
    next
      case 2
      with p(1) show ?thesis by (simp split: if_splits)
    next
      case 3
      with p(1) show ?thesis by simp
    qed
  next
    case True
    have "z + 719468 = era * 146097 + doe" by (simp add: doe_def)
    with True assms(3) have "doe \<le> 146036" by simp
    with True have "doy \<le> 305" by (simp add: doy_def year_start_values)
    then have "5 * doy + 2 \<le> 1527" by simp
    then have "(5 * doy + 2) div 153 \<le> 1527 div 153" by (intro zdiv_mono1) simp_all
    then have "mp < 10" by (simp add: mp_def)
    with p(2) mp0 have "3 \<le> m" by simp
    with True show ?thesis by simp
  qed
  from lo hi show ?thesis by simp
qed

lemma Date_parse_iso_date:
  assumes "0 \<le> t" "t < 253402300800000"
  shows "Date_parse (iso_date t) = Some (t div ms_per_day * ms_per_day)"
proof -
  obtain y m d where c: "civil_from_days (t div ms_per_day) = (y, m, d)"
    by (cases "civil_from_days (t div ms_per_day)")
  have z: "0 \<le> t div ms_per_day" using assms(1) by (simp add: ms_per_day_def)
  have "t div ms_per_day \<le> 253402300799999 div ms_per_day"
    using assms(2) unfolding ms_per_day_def by (intro zdiv_mono1) simp_all
  then have z': "t div ms_per_day \<le> 2932896" by (simp add: ms_per_day_def)
  from civil_roundtrip [OF c] civil_year_range [OF c z z']
  have r: "days_from_civil y m d = t div ms_per_day"
    and "0 \<le> y" "y \<le> 9999" "1 \<le> m" "m \<le> 12" "1 \<le> d" "d \<le> 31"
    by simp_all
  from Date_parse_pad [OF this(2-7)] show ?thesis
    unfolding iso_date_eq [OF c] r .
qed

section \<open>Properties of the due-soon list\<close>

lemma ceil_div_today: "ceil_div (now div ms_per_day * ms_per_day - now) ms_per_day = 0"
proof -
  have "- (now div ms_per_day * ms_per_day - now) = now mod ms_per_day"
    by (simp add: minus_div_mult_eq_mod)
  moreover have "now mod ms_per_day div ms_per_day = 0"
    by (intro div_pos_pos_trivial) (simp_all add: ms_per_day_def)
  ultimately show ?thesis by (simp add: ceil_div_def)
qed

lemma ceil_div_tomorrow:
  "ceil_div ((now div ms_per_day + 1) * ms_per_day - now) ms_per_day = 1"
proof -
  have "- ((now div ms_per_day + 1) * ms_per_day - now)
      = now mod ms_per_day + (- 1) * ms_per_day"
    by (simp add: algebra_simps minus_div_mult_eq_mod [symmetric])
  moreover have "(now mod ms_per_day + (- 1) * ms_per_day) div ms_per_day
      = - 1 + now mod ms_per_day div ms_per_day"
    by (rule div_mult_self1) (simp add: ms_per_day_def)
  moreover have "now mod ms_per_day div ms_per_day = 0"
    by (intro div_pos_pos_trivial) (simp_all add: ms_per_day_def)
  ultimately show ?thesis by (simp add: ceil_div_def)
qed

lemma tomorrow_day:
  "(now + ms_per_day) div ms_per_day = now div ms_per_day + 1"
  by (simp add: ms_per_day_def)

lemma due_dates:
  assumes "0 \<le> now" "now < 253402214400000"
  shows "Date_parse (iso_date now) = Some (now div ms_per_day * ms_per_day)"
    and "Date_parse (iso_date (now + ms_per_day)) = Some ((now div ms_per_day + 1) * ms_per_day)"
    and "iso_date now \<noteq> iso_date (now + ms_per_day)"
proof -
  show a: "Date_parse (iso_date now) = Some (now div ms_per_day * ms_per_day)"
    using assms by (intro Date_parse_iso_date) simp_all
  have "0 \<le> now + ms_per_day" "now + ms_per_day < 253402300800000"
    using assms by (simp_all add: ms_per_day_def)
  then have "Date_parse (iso_date (now + ms_per_day))
      = Some ((now + ms_per_day) div ms_per_day * ms_per_day)"
    by (rule Date_parse_iso_date)
  then show b: "Date_parse (iso_date (now + ms_per_day))
      = Some ((now div ms_per_day + 1) * ms_per_day)"
    by (simp only: tomorrow_day)
  show "iso_date now \<noteq> iso_date (now + ms_per_day)"
  proof
    assume eq: "iso_date now = iso_date (now + ms_per_day)"
    have "Some (now div ms_per_day * ms_per_day) = Date_parse (iso_date now)"
      by (rule a [symmetric])
    also have "\<dots> = Date_parse (iso_date (now + ms_per_day))"
      by (rule arg_cong [OF eq])
    also have "\<dots> = Some ((now div ms_per_day + 1) * ms_per_day)"
      by (rule b)
    finally have e: "now div ms_per_day * ms_per_day = (now div ms_per_day + 1) * ms_per_day"
      by (simp only: option.inject)
    have "(now div ms_per_day + 1) * ms_per_day = now div ms_per_day * ms_per_day + ms_per_day"
      by (simp add: distrib_right)
    with e have "ms_per_day = 0" by simp
    then show False by (simp add: ms_per_day_def)
  qed
qed

lemma days_until_due:
  assumes "0 \<le> now" "now < 253402214400000"
  shows "days_until (Some (JStr (iso_date now))) now = JNum 0"
    and "days_until (Some (JStr (iso_date (now + ms_per_day)))) now = JNum 1"
  using due_dates(1,2) [OF assms]
  by (simp_all add: days_until_def ceil_div_today ceil_div_tomorrow)

lemma listDueSoon_rows:
  assumes "0 \<le> now" "now < 253402214400000"
  shows "\<exists>rows.
     listDueSoon d now uid =
       Response 200 (Rows (map (\<lambda>t. t(''daysUntilDue'' \<mapsto>
           JNum (if t ''dueDate'' = Some (JStr (iso_date (now + ms_per_day))) then 1 else 0))) rows))
     \<and> mset rows =
         mset (filter (\<lambda>t. t ''user_id'' = Some (JNum uid) \<and> t ''completed'' = Some (JBool False)
                          \<and> (t ''dueDate'' = Some (JStr (iso_date now))
                               \<or> t ''dueDate'' = Some (JStr (iso_date (now + ms_per_day)))))
                (tasks d))
     \<and> sorted (map (\<lambda>t. sql_key (t ''dueDate'')) rows)"
proof -
  define P where "P = (\<lambda>t :: obj. t ''user_id'' = Some (JNum uid)
      \<and> t ''completed'' = Some (JBool False)
      \<and> (t ''dueDate'' = Some (JStr (iso_date now))
           \<or> t ''dueDate'' = Some (JStr (iso_date (now + ms_per_day)))))"
  define rows where "rows = sort_key (\<lambda>t. sql_key (t ''dueDate'')) (filter P (tasks d))"
  have P: "due_soon uid (iso_date now) (iso_date (now + ms_per_day)) = P"
    by (rule ext) (simp add: due_soon_def P_def)
  have ann: "\<And>t. t \<in> set rows \<Longrightarrow>
      days_until (t ''dueDate'') now
        = JNum (if t ''dueDate'' = Some (JStr (iso_date (now + ms_per_day))) then 1 else 0)"
  proof -
    fix t assume "t \<in> set rows"
    then have "P t" by (simp add: rows_def)
    then consider "t ''dueDate'' = Some (JStr (iso_date now))"
      | "t ''dueDate'' = Some (JStr (iso_date (now + ms_per_day)))"
      by (auto simp: P_def)
    then show "days_until (t ''dueDate'') now
        = JNum (if t ''dueDate'' = Some (JStr (iso_date (now + ms_per_day))) then 1 else 0)"
      using days_until_due [OF assms] due_dates(3) [OF assms] by cases simp_all
  qed
  have "listDueSoon d now uid =
      Response 200 (Rows (map (\<lambda>t. t(''daysUntilDue'' \<mapsto> days_until (t ''dueDate'') now)) rows))"
    by (simp add: listDueSoon_def Let_def P rows_def)
  also have "map (\<lambda>t. t(''daysUntilDue'' \<mapsto> days_until (t ''dueDate'') now)) rows
      = map (\<lambda>t. t(''daysUntilDue'' \<mapsto>
           JNum (if t ''dueDate'' = Some (JStr (iso_date (now + ms_per_day))) then 1 else 0))) rows"
    using ann by (intro map_cong) simp_all
  finally have "listDueSoon d now uid =
       Response 200 (Rows (map (\<lambda>t. t(''daysUntilDue'' \<mapsto>
           JNum (if t ''dueDate'' = Some (JStr (iso_date (now + ms_per_day))) then 1 else 0))) rows))" .
  moreover have "mset rows = mset (filter P (tasks d))" by (simp add: rows_def)
  moreover have "sorted (map (\<lambda>t. sql_key (t ''dueDate'')) rows)" by (simp add: rows_def)
  ultimately show ?thesis unfolding P_def by blast
qed
lemma due_db_dates:
  "iso_date 1704139200000 = ''2024-01-01''"
  "iso_date (1704139200000 + ms_per_day) = ''2024-01-02''"
  by code_simp+

lemma due_db_due:
  "filter (\<lambda>t. t ''user_id'' = Some (JNum 2) \<and> t ''completed'' = Some (JBool False)
                \<and> (t ''dueDate'' = Some (JStr (iso_date 1704139200000))
                     \<or> t ''dueDate'' = Some (JStr (iso_date (1704139200000 + ms_per_day)))))
      (tasks due_db) = [bobs_task]"
  unfolding due_db_dates
  by (simp add: due_db_def bobs_task_def bobs_done_task_def due_local_tomorrow_def)

lemma due_db_result:
  "listDueSoon due_db 1704139200000 2 = Response 200 (Rows [bobs_task(''daysUntilDue'' \<mapsto> JNum 1)])"
proof -
  have "(0::int) \<le> 1704139200000" "(1704139200000::int) < 253402214400000" by simp_all
  from listDueSoon_rows [OF this, of due_db 2] obtain rows where
    r: "listDueSoon due_db 1704139200000 2 =
       Response 200 (Rows (map (\<lambda>t. t(''daysUntilDue'' \<mapsto>
           JNum (if t ''dueDate'' = Some (JStr (iso_date (1704139200000 + ms_per_day)))
                 then 1 else 0))) rows))"
    and "mset rows = mset [bobs_task]"
    unfolding due_db_due by blast
  then have "rows = [bobs_task]" by (simp add: mset_single_iff)
  with r show ?thesis by (simp add: due_db_dates bobs_task_def)
qed

text \<open>
  Claim C6, as the route has it. For a clock between 1970 and the end of the year 9999,
  the route returns exactly the caller's tasks with \<^verbatim>\<open>completed\<close> false whose due date is
  the UTC calendar date of the clock or of the clock 24 hours on (the dates
  \<^verbatim>\<open>toISOString\<close> prints), in ascending order of the stored due date, each with
  \<^verbatim>\<open>daysUntilDue\<close>: 1 for a task due on the later date and 0 for one due on the earlier.
  These are the ceilings of the whole days from the clock to midnight UTC of the due
  date.
\<close>

theorem C6_due_soon_by_utc_date:
  assumes "0 \<le> now" "now < 253402214400000"
  shows "(\<exists>rows.
     listDueSoon d now uid =
       Response 200 (Rows (map (\<lambda>t. t(''daysUntilDue'' \<mapsto>
           JNum (if t ''dueDate'' = Some (JStr (iso_date (now + ms_per_day))) then 1 else 0))) rows))
     \<and> mset rows =
         mset (filter (\<lambda>t. t ''user_id'' = Some (JNum uid) \<and> t ''completed'' = Some (JBool False)
                          \<and> (t ''dueDate'' = Some (JStr (iso_date now))
                               \<or> t ''dueDate'' = Some (JStr (iso_date (now + ms_per_day)))))
                (tasks d))
     \<and> sorted (map (\<lambda>t. sql_key (t ''dueDate'')) rows))
   \<and> Date_parse (iso_date now) = Some (now div ms_per_day * ms_per_day)
   \<and> ceil_div (now div ms_per_day * ms_per_day - now) ms_per_day = 0
   \<and> Date_parse (iso_date (now + ms_per_day)) = Some ((now div ms_per_day + 1) * ms_per_day)
   \<and> ceil_div ((now div ms_per_day + 1) * ms_per_day - now) ms_per_day = 1"
  using listDueSoon_rows [OF assms, of d uid] due_dates(1,2) [OF assms]
    ceil_div_today [of now] ceil_div_tomorrow [of now]
  by blast

theorem C6_due_soon_by_utc_date_witness:
  "listDueSoon due_db 1704139200000 2 = Response 200 (Rows [bobs_task(''daysUntilDue'' \<mapsto> JNum 1)])
   \<and> bobs_task ''dueDate'' = Some (JStr (iso_date (1704139200000 + ms_per_day)))
   \<and> bobs_done_task ''dueDate'' = Some (JStr (iso_date (1704139200000 + ms_per_day)))
   \<and> bobs_done_task ''completed'' = Some (JBool True)
   \<and> bobs_done_task \<in> set (tasks due_db)"
proof -
  have "(0::int) \<le> 1704139200000" "(1704139200000::int) < 253402214400000" by simp_all
  from C6_due_soon_by_utc_date [OF this, of due_db 2] obtain rows where
    r: "listDueSoon due_db 1704139200000 2 =
       Response 200 (Rows (map (\<lambda>t. t(''daysUntilDue'' \<mapsto>
           JNum (if t ''dueDate'' = Some (JStr (iso_date (1704139200000 + ms_per_day)))
                 then 1 else 0))) rows))"
    and "mset rows = mset [bobs_task]"
    unfolding due_db_due by blast
  then have "rows = [bobs_task]" by (simp add: mset_single_iff)
  with r have "listDueSoon due_db 1704139200000 2
      = Response 200 (Rows [bobs_task(''daysUntilDue'' \<mapsto> JNum 1)])"
    by (simp add: due_db_dates bobs_task_def)
  then show ?thesis
    by (simp add: due_db_dates bobs_task_def bobs_done_task_def due_db_def)
qed

text \<open>
  The claim as stated, with the server's local calendar date, fails. On a server whose
  clock runs at UTC+05:30, at 01:30 local time on 2 January 2024 the local date is
  2 January and tomorrow is 3 January; the route still works with the UTC dates
  1 and 2 January. The caller's open task due on 3 January is left out, and the one
  due on 2 January, today by the local calendar, comes back with \<^verbatim>\<open>daysUntilDue\<close> 1.
\<close>

theorem C6_counterexample:
  "local_date 330 1704139200000 = ''2024-01-02''
   \<and> local_date 330 (1704139200000 + ms_per_day) = ''2024-01-03''
   \<and> due_local_tomorrow \<in> set (tasks due_db)
   \<and> due_local_tomorrow ''user_id'' = Some (JNum 2)
   \<and> due_local_tomorrow ''completed'' = Some (JBool False)
   \<and> due_local_tomorrow ''dueDate'' = Some (JStr ''2024-01-03'')
   \<and> bobs_task ''dueDate'' = Some (JStr ''2024-01-02'')
   \<and> listDueSoon due_db 1704139200000 2
       = Response 200 (Rows [bobs_task(''daysUntilDue'' \<mapsto> JNum 1)])"
proof -
  have "local_date 330 1704139200000 = ''2024-01-02''"
    "local_date 330 (1704139200000 + ms_per_day) = ''2024-01-03''"
    by code_simp+
  then show ?thesis
    using due_db_result by (simp add: due_db_def due_local_tomorrow_def bobs_task_def)
qed

end
